theory Spec2Isabelle
  imports Complex_Main
begin

section \<open>UPS power-quality filters: a model of \<open>playbooks/filter_plugins/ups_filters.py\<close>\<close>

text \<open>
  The theory embeds the class \<open>FilterModule\<close>: the SNMP value parser
  \<open>parse_snmp_value\<close>, the numeric extractor \<open>get_numeric_value\<close>, the state decoder
  \<open>decode_ups_state\<close>, the evaluator \<open>analyze_power_quality\<close>, the scorer
  \<open>calculate_quality_score\<close> and \<open>generate_recommendations\<close>.

  Python text is a sequence of code points. It is modelled by \<open>string\<close>, one \<open>char\<close> per
  code point, which covers the code points below 256; every literal of the source lies in
  that range. Dictionaries have text keys. The built-in functions the program calls
  (\<open>strip\<close>, \<open>split\<close>, the regular expressions, \<open>int\<close>, \<open>float\<close>, \<open>str\<close>) are
  modelled as CPython 3 defines them on such text.
\<close>

subsection \<open>Text primitives of Python\<close>

text \<open>
  \<open>str.isspace\<close> on one code point, which is also what \<open>str.strip()\<close> and the regular
  expression class \<open>\s\<close> use: below 256 these are TAB..CR, FS..US, SPACE, NEL (0x85)
  and NBSP (0xA0).
\<close>

definition is_space :: "char \<Rightarrow> bool" where
  "is_space c = (c \<in> set [CHR 0x09, CHR 0x0A, CHR 0x0B, CHR 0x0C, CHR 0x0D,
                           CHR 0x1C, CHR 0x1D, CHR 0x1E, CHR 0x1F, CHR 0x20,
                           CHR 0x85, CHR 0xA0])"

text \<open>
  The white space \<open>int()\<close> and \<open>float()\<close> accept around a literal: the same without
  the separators FS..US.
\<close>

definition is_num_space :: "char \<Rightarrow> bool" where
  "is_num_space c = (is_space c \<and> c \<notin> set [CHR 0x1C, CHR 0x1D, CHR 0x1E, CHR 0x1F])"

text \<open>The class \<open>\d\<close> and the digits of \<open>int()\<close> and \<open>float()\<close>; below 256 only 0..9.\<close>

definition is_digit :: "char \<Rightarrow> bool" where
  "is_digit c = (c \<in> set ''0123456789'')"

text \<open>\<open>s.strip(chars)\<close>: drop every leading and every trailing character that is in \<open>chars\<close>.\<close>

definition strip_chars :: "(char \<Rightarrow> bool) \<Rightarrow> string \<Rightarrow> string" where
  "strip_chars p s = rev (dropWhile p (rev (dropWhile p s)))"

text \<open>\<open>s.strip()\<close>\<close>

definition py_strip :: "string \<Rightarrow> string" where
  "py_strip s = strip_chars is_space s"

text \<open>\<open>s.startswith(p)\<close>\<close>

fun starts_with :: "string \<Rightarrow> string \<Rightarrow> bool" where
  "starts_with [] s = True"
| "starts_with (p # ps) [] = False"
| "starts_with (p # ps) (c # cs) = (p = c \<and> starts_with ps cs)"

text \<open>\<open>sub in s\<close> on text: \<open>sub\<close> occurs in \<open>s\<close> as a contiguous substring.\<close>

fun str_contains :: "string \<Rightarrow> string \<Rightarrow> bool" where
  "str_contains sub [] = (sub = [])"
| "str_contains sub (c # cs) = (starts_with sub (c # cs) \<or> str_contains sub cs)"

text \<open>\<open>s.split(sep, 1)\<close> for a separator of one character: at most two parts.\<close>

definition split_once :: "char \<Rightarrow> string \<Rightarrow> string list" where
  "split_once sep s =
     (if sep \<in> set s
      then [takeWhile (\<lambda>c. c \<noteq> sep) s, tl (dropWhile (\<lambda>c. c \<noteq> sep) s)]
      else [s])"

text \<open>
  \<open>re.sub('^TAG\s*', '', s)\<close> for a literal \<open>TAG\<close>: \<open>^\<close> matches at the start of the text
  only, so at most one replacement happens; the tag and the white space after it go.
\<close>

definition re_sub_prefix :: "string \<Rightarrow> string \<Rightarrow> string" where
  "re_sub_prefix tag s =
     (if starts_with tag s then dropWhile is_space (drop (length tag) s) else s)"

subsection \<open>Integers and their decimal text\<close>

text \<open>\<open>str(n)\<close> for an integer: decimal digits, with a minus sign for a negative one.\<close>

fun show_nat :: "nat \<Rightarrow> string" where
  "show_nat n =
     (if n < 10 then [''0123456789'' ! n]
      else show_nat (n div 10) @ [''0123456789'' ! (n mod 10)])"

declare show_nat.simps [simp del]

definition show_int :: "int \<Rightarrow> string" where
  "show_int i = (if i < 0 then CHR ''-'' # show_nat (nat (- i)) else show_nat (nat i))"

text \<open>The value of a run of decimal digits.\<close>

definition digit_val :: "char \<Rightarrow> nat" where
  "digit_val c = of_char c - 48"

definition digits_value :: "string \<Rightarrow> nat" where
  "digits_value ds = foldl (\<lambda>a c. 10 * a + digit_val c) 0 ds"

text \<open>An optional sign in front of a literal: whether it is negative, and the rest.\<close>

definition split_sign :: "string \<Rightarrow> bool \<times> string" where
  "split_sign s =
     (case s of
        [] \<Rightarrow> (False, [])
      | c # cs \<Rightarrow> if c = CHR ''-'' then (True, cs)
                  else if c = CHR ''+'' then (False, cs)
                  else (False, s))"

text \<open>
  The digit part of \<open>int()\<close>: decimal digits with single underscores between them
  (PEP 515); leading zeros are accepted in base 10.
\<close>

fun valid_digits :: "string \<Rightarrow> bool" where
  "valid_digits [] = False"
| "valid_digits [c] = is_digit c"
| "valid_digits (c # d # cs) =
     (is_digit c \<and> (if d = CHR ''_'' then valid_digits cs else valid_digits (d # cs)))"

text \<open>
  \<open>int(s)\<close> for text: white space around, an optional sign, the digit part. \<open>None\<close>
  stands for the \<open>ValueError\<close>. (The limit of 4300 digits that CPython 3.11 added is
  not modelled.)
\<close>

definition py_int_of_str :: "string \<Rightarrow> int option" where
  "py_int_of_str s =
     (case split_sign (strip_chars is_num_space s) of
        (neg, ds) \<Rightarrow>
          if valid_digits ds
          then let n = int (digits_value (filter (\<lambda>c. c \<noteq> CHR ''_'') ds))
               in Some (if neg then - n else n)
          else None)"

subsection \<open>Floats\<close>

text \<open>
  A Python float is an IEEE 754 binary64 value: a finite value (identified with the
  rational number it denotes; \<open>Finite 0\<close> is \<open>+0.0\<close>), negative zero, the two
  infinities, or a NaN.
\<close>

datatype pyfloat = Finite rat | NegZero | PosInf | NegInf | NaN

text \<open>
  Rounding a positive rational to binary64, to nearest and ties to even: with
  \<open>2^e \<le> x < 2^(e+1)\<close> (and \<open>e\<close> at least -1022, where the subnormal range begins) the
  result is the multiple of \<open>2^(e-52)\<close> nearest to \<open>x\<close>. \<open>None\<close> is the overflow.
\<close>

fun bit_length :: "nat \<Rightarrow> nat" where
  "bit_length n = (if n = 0 then 0 else Suc (bit_length (n div 2)))"

fun dec_length :: "nat \<Rightarrow> nat" where
  "dec_length n = (if n = 0 then 0 else Suc (dec_length (n div 10)))"

declare bit_length.simps [simp del] dec_length.simps [simp del]

definition pow2 :: "int \<Rightarrow> rat" where
  "pow2 k = (if 0 \<le> k then 2 ^ nat k else 1 / 2 ^ nat (- k))"

definition pow10 :: "int \<Rightarrow> rat" where
  "pow10 k = (if 0 \<le> k then 10 ^ nat k else 1 / 10 ^ nat (- k))"

definition floor_log2 :: "rat \<Rightarrow> int" where
  "floor_log2 x =
     (if 1 \<le> x then int (bit_length (nat \<lfloor>x\<rfloor>)) - 1
      else - int (bit_length (nat (\<lceil>1 / x\<rceil> - 1))))"

definition round_half_even :: "rat \<Rightarrow> int" where
  "round_half_even x =
     (let f = \<lfloor>x\<rfloor>; d = x - of_int f
      in if d < 1 / 2 then f else if 1 / 2 < d then f + 1 else if even f then f else f + 1)"

definition round_binary64 :: "rat \<Rightarrow> rat option" where
  "round_binary64 x =
     (let e = max (floor_log2 x) (- 1022);
          q = pow2 (e - 52);
          v = of_int (round_half_even (x / q)) * q
      in if pow2 1024 \<le> v then None else Some v)"

text \<open>The float of a sign and a magnitude, as \<open>float()\<close> of a decimal literal computes it.\<close>

definition float_of_rat :: "bool \<Rightarrow> rat \<Rightarrow> pyfloat" where
  "float_of_rat neg x =
     (if x = 0 then (if neg then NegZero else Finite 0)
      else case round_binary64 x of
             None \<Rightarrow> (if neg then NegInf else PosInf)
           | Some v \<Rightarrow> if v = 0 then (if neg then NegZero else Finite 0)
                       else Finite (if neg then - v else v))"

text \<open>
  \<open>float(i)\<close> for an integer: correctly rounded; \<open>None\<close> stands for the
  \<open>OverflowError\<close> of an integer too large for binary64.
\<close>

definition py_float_of_int :: "int \<Rightarrow> pyfloat option" where
  "py_float_of_int i =
     (if i = 0 then Some (Finite 0)
      else case round_binary64 (of_int \<bar>i\<bar>) of
             None \<Rightarrow> None
           | Some v \<Rightarrow> Some (Finite (if i < 0 then - v else v)))"

text \<open>
  \<open>repr(x)\<close> of a float, which \<open>str()\<close> and f-strings use: the shortest decimal digit
  string that rounds back to \<open>x\<close> (the nearest to \<open>x\<close> among the shortest), printed
  with an exponent when the decimal point position \<open>p\<close> (\<open>10^(p-1) \<le> x < 10^p\<close>) is above
  16 or below -3, and with \<open>.0\<close> appended to an integral value otherwise.
\<close>

definition decpt :: "rat \<Rightarrow> int" where
  "decpt x =
     (if 1 \<le> x then int (dec_length (nat \<lfloor>x\<rfloor>))
      else 1 - int (dec_length (nat (\<lceil>1 / x\<rceil> - 1))))"

definition repr_candidate :: "rat \<Rightarrow> nat \<Rightarrow> rat option" where
  "repr_candidate x k =
     (let scale = pow10 (decpt x - int k);
          lo = of_int \<lfloor>x / scale\<rfloor> * scale;
          hi = of_int \<lceil>x / scale\<rceil> * scale;
          ok_lo = (round_binary64 lo = Some x);
          ok_hi = (round_binary64 hi = Some x)
      in if ok_lo \<and> ok_hi
         then Some (if x - lo < hi - x then lo
                    else if hi - x < x - lo then hi
                    else if even \<lfloor>x / scale\<rfloor> then lo else hi)
         else if ok_lo then Some lo
         else if ok_hi then Some hi
         else None)"

fun shortest_repr :: "rat \<Rightarrow> nat \<Rightarrow> nat \<Rightarrow> rat" where
  "shortest_repr x k 0 = x"
| "shortest_repr x k (Suc n) =
     (case repr_candidate x k of Some d \<Rightarrow> d | None \<Rightarrow> shortest_repr x (Suc k) n)"

definition repr_digits :: "rat \<Rightarrow> string \<times> int" where
  "repr_digits x =
     (let d = shortest_repr x (Suc 0) 17;
          p = decpt d;
          m = nat \<lfloor>d / pow10 (p - 17)\<rfloor>
      in (rev (dropWhile (\<lambda>c. c = CHR ''0'') (rev (show_nat m))), p))"

definition format_repr :: "string \<Rightarrow> int \<Rightarrow> string" where
  "format_repr ds p =
     (if 16 < p \<or> p < - 3
      then take 1 ds @ (if drop 1 ds = [] then [] else CHR ''.'' # drop 1 ds) @ ''e''
           @ (if p - 1 < 0 then ''-'' else ''+'')
           @ (let ex = show_nat (nat \<bar>p - 1\<bar>) in if length ex < 2 then CHR ''0'' # ex else ex)
      else if p \<le> 0 then ''0.'' @ replicate (nat (- p)) (CHR ''0'') @ ds
      else if int (length ds) \<le> p
           then ds @ replicate (nat p - length ds) (CHR ''0'') @ ''.0''
      else take (nat p) ds @ ''.'' @ drop (nat p) ds)"

definition float_repr :: "pyfloat \<Rightarrow> string" where
  "float_repr f =
     (case f of
        NaN \<Rightarrow> ''nan''
      | PosInf \<Rightarrow> ''inf''
      | NegInf \<Rightarrow> ''-inf''
      | NegZero \<Rightarrow> ''-0.0''
      | Finite r \<Rightarrow>
          if r = 0 then ''0.0''
          else (if r < 0 then ''-'' else '''')
               @ (case repr_digits \<bar>r\<bar> of (ds, p) \<Rightarrow> format_repr ds p))"

text \<open>
  Conversions and comparisons the program applies to a float. Comparing a float with an
  integer constant compares the exact values; every comparison with a NaN is false.
\<close>

definition float_truthy :: "pyfloat \<Rightarrow> bool" where
  "float_truthy f = (case f of Finite r \<Rightarrow> r \<noteq> 0 | NegZero \<Rightarrow> False | _ \<Rightarrow> True)"

definition float_lt :: "pyfloat \<Rightarrow> int \<Rightarrow> bool" where
  "float_lt f n =
     (case f of Finite r \<Rightarrow> r < of_int n | NegZero \<Rightarrow> 0 < n
              | PosInf \<Rightarrow> False | NegInf \<Rightarrow> True | NaN \<Rightarrow> False)"

definition float_gt :: "pyfloat \<Rightarrow> int \<Rightarrow> bool" where
  "float_gt f n =
     (case f of Finite r \<Rightarrow> of_int n < r | NegZero \<Rightarrow> n < 0
              | PosInf \<Rightarrow> True | NegInf \<Rightarrow> False | NaN \<Rightarrow> False)"

definition float_eq :: "pyfloat \<Rightarrow> int \<Rightarrow> bool" where
  "float_eq f n =
     (case f of Finite r \<Rightarrow> r = of_int n | NegZero \<Rightarrow> n = 0 | _ \<Rightarrow> False)"

text \<open>The exceptions the program can meet; each carries its message, which \<open>str(e)\<close> returns.\<close>

datatype exn = AttributeError string | OverflowError string | ValueError string

fun exn_str :: "exn \<Rightarrow> string" where
  "exn_str (AttributeError m) = m"
| "exn_str (OverflowError m) = m"
| "exn_str (ValueError m) = m"

text \<open>\<open>int(x)\<close> for a float: truncation toward zero; infinities and NaN raise.\<close>

definition py_int_of_float :: "pyfloat \<Rightarrow> exn + int" where
  "py_int_of_float f =
     (case f of
        Finite r \<Rightarrow> Inr (if 0 \<le> r then \<lfloor>r\<rfloor> else \<lceil>r\<rceil>)
      | NegZero \<Rightarrow> Inr 0
      | PosInf \<Rightarrow> Inl (OverflowError ''cannot convert float infinity to integer'')
      | NegInf \<Rightarrow> Inl (OverflowError ''cannot convert float infinity to integer'')
      | NaN \<Rightarrow> Inl (ValueError ''cannot convert float NaN to integer''))"

text \<open>
  \<open>float(s)\<close> for text: white space around; underscores only between digits; an optional
  sign; then \<open>inf\<close>, \<open>infinity\<close> or \<open>nan\<close> in any case, or a decimal literal with an
  optional exponent. \<open>None\<close> stands for the \<open>ValueError\<close>.
\<close>

fun underscores_ok :: "char \<Rightarrow> string \<Rightarrow> bool" where
  "underscores_ok prev [] = (prev \<noteq> CHR ''_'')"
| "underscores_ok prev (c # cs) =
     ((if c = CHR ''_'' then is_digit prev
       else if prev = CHR ''_'' then is_digit c else True)
      \<and> underscores_ok c cs)"

definition to_lower :: "char \<Rightarrow> char" where
  "to_lower c =
     (case map_of (zip ''ABCDEFGHIJKLMNOPQRSTUVWXYZ'' ''abcdefghijklmnopqrstuvwxyz'') c of
        Some l \<Rightarrow> l
      | None \<Rightarrow> c)"

definition parse_exponent :: "string \<Rightarrow> int option" where
  "parse_exponent s =
     (case s of
        [] \<Rightarrow> Some 0
      | c # cs \<Rightarrow>
          if c = CHR ''e'' \<or> c = CHR ''E''
          then (case split_sign cs of
                  (neg, ds) \<Rightarrow>
                    if ds \<noteq> [] \<and> list_all is_digit ds
                    then Some (if neg then - int (digits_value ds) else int (digits_value ds))
                    else None)
          else None)"

definition parse_float :: "string \<Rightarrow> pyfloat option" where
  "parse_float t =
     (case split_sign t of
        (neg, r) \<Rightarrow>
          let l = map to_lower r in
          if l = ''inf'' \<or> l = ''infinity'' then Some (if neg then NegInf else PosInf)
          else if l = ''nan'' then Some NaN
          else
            let ip = takeWhile is_digit r;
                r1 = dropWhile is_digit r;
                has_point = (case r1 of [] \<Rightarrow> False | c # cs \<Rightarrow> c = CHR ''.'');
                fp = (if has_point then takeWhile is_digit (tl r1) else []);
                r2 = (if has_point then dropWhile is_digit (tl r1) else r1)
            in if ip @ fp = [] then None
               else (case parse_exponent r2 of
                       None \<Rightarrow> None
                     | Some ex \<Rightarrow>
                         Some (float_of_rat neg
                                 (of_nat (digits_value (ip @ fp))
                                  * pow10 (ex - int (length fp))))))"

definition py_float_of_str :: "string \<Rightarrow> pyfloat option" where
  "py_float_of_str s =
     (let t = strip_chars is_num_space s
      in if underscores_ok (CHR 0x00) t then parse_float (filter (\<lambda>c. c \<noteq> CHR ''_'') t)
         else None)"

text \<open>
  \<open>re.search(r'[-+]?\d*\.?\d+', s)\<close>: the leftmost match. At one position the greedy
  match is the optional sign, the longest run of digits and, when a point and a digit
  follow, the point and the longest run of digits after it; when they do not, the run of
  digits alone (by backtracking), if there is one.
\<close>

definition match_number_at :: "string \<Rightarrow> string option" where
  "match_number_at s =
     (let sg = (case s of [] \<Rightarrow> [] | c # cs \<Rightarrow> if c = CHR ''-'' \<or> c = CHR ''+'' then [c] else []);
          r = drop (length sg) s;
          d1 = takeWhile is_digit r;
          r1 = dropWhile is_digit r;
          d2 = (case r1 of [] \<Rightarrow> [] | c # cs \<Rightarrow> if c = CHR ''.'' then takeWhile is_digit cs else [])
      in if d2 \<noteq> [] then Some (sg @ d1 @ ''.'' @ d2)
         else if d1 \<noteq> [] then Some (sg @ d1)
         else None)"

fun re_search_number :: "string \<Rightarrow> string option" where
  "re_search_number [] = None"
| "re_search_number (c # cs) =
     (case match_number_at (c # cs) of
        Some m \<Rightarrow> Some m
      | None \<Rightarrow> re_search_number cs)"

subsection \<open>Python values\<close>

text \<open>
  The values a caller can pass: \<open>None\<close>, booleans, integers, floats, text, lists and
  dictionaries with text keys (in insertion order).
\<close>

datatype pyval =
    PNone
  | PBool bool
  | PInt int
  | PFloat pyfloat
  | PStr string
  | PList "pyval list"
  | PDict "(string \<times> pyval) list"

text \<open>Truth value of an object (\<open>not raw_value\<close>, \<open>if x:\<close>).\<close>

fun truthy :: "pyval \<Rightarrow> bool" where
  "truthy PNone = False"
| "truthy (PBool b) = b"
| "truthy (PInt i) = (i \<noteq> 0)"
| "truthy (PFloat f) = float_truthy f"
| "truthy (PStr s) = (s \<noteq> [])"
| "truthy (PList vs) = (vs \<noteq> [])"
| "truthy (PDict kvs) = (kvs \<noteq> [])"

text \<open>\<open>isinstance(v, (int, float))\<close>; \<open>bool\<close> is a subclass of \<open>int\<close>.\<close>

fun is_number :: "pyval \<Rightarrow> bool" where
  "is_number (PBool b) = True"
| "is_number (PInt i) = True"
| "is_number (PFloat f) = True"
| "is_number v = False"

fun type_name :: "pyval \<Rightarrow> string" where
  "type_name PNone = ''NoneType''"
| "type_name (PBool b) = ''bool''"
| "type_name (PInt i) = ''int''"
| "type_name (PFloat f) = ''float''"
| "type_name (PStr s) = ''str''"
| "type_name (PList vs) = ''list''"
| "type_name (PDict kvs) = ''dict''"

text \<open>
  \<open>repr(s)\<close> of text: single quotes unless the text has a single quote and no double
  quote; the quote and the backslash escaped; TAB, LF, CR as \<open>\t \n \r\<close>; every other
  unprintable code point (below 0x20, 0x7F to 0xA0, 0xAD) as \<open>\xNN\<close>.
\<close>

definition hex2 :: "nat \<Rightarrow> string" where
  "hex2 n = [''0123456789abcdef'' ! (n div 16 mod 16), ''0123456789abcdef'' ! (n mod 16)]"

definition repr_char :: "char \<Rightarrow> char \<Rightarrow> string" where
  "repr_char q c =
     (let n = (of_char c :: nat) in
      if c = q \<or> c = CHR 0x5C then [CHR 0x5C, c]
      else if c = CHR 0x09 then [CHR 0x5C, CHR ''t'']
      else if c = CHR 0x0A then [CHR 0x5C, CHR ''n'']
      else if c = CHR 0x0D then [CHR 0x5C, CHR ''r'']
      else if n < 32 \<or> (127 \<le> n \<and> n \<le> 160) \<or> n = 173 then [CHR 0x5C, CHR ''x''] @ hex2 n
      else [c])"

definition str_repr :: "string \<Rightarrow> string" where
  "str_repr s =
     (let q = (if CHR 0x27 \<in> set s \<and> CHR 0x22 \<notin> set s then CHR 0x22 else CHR 0x27)
      in q # concat (map (repr_char q) s) @ [q])"

fun join_comma :: "string list \<Rightarrow> string" where
  "join_comma [] = []"
| "join_comma [x] = x"
| "join_comma (x # y # ys) = x @ '', '' @ join_comma (y # ys)"

fun py_repr :: "pyval \<Rightarrow> string" where
  "py_repr PNone = ''None''"
| "py_repr (PBool b) = (if b then ''True'' else ''False'')"
| "py_repr (PInt i) = show_int i"
| "py_repr (PFloat f) = float_repr f"
| "py_repr (PStr s) = str_repr s"
| "py_repr (PList vs) = ''['' @ join_comma (map py_repr vs) @ '']''"
| "py_repr (PDict kvs) =
     ''{'' @ join_comma (map (\<lambda>kv. str_repr (fst kv) @ '': '' @ py_repr (snd kv)) kvs) @ ''}''"

text \<open>\<open>str(v)\<close>, which is also what an f-string field \<open>{v}\<close> prints.\<close>

definition py_str :: "pyval \<Rightarrow> string" where
  "py_str v = (case v of PStr s \<Rightarrow> s | _ \<Rightarrow> py_repr v)"

text \<open>
  Attribute access: \<open>d.get(k, default)\<close> and \<open>d.items()\<close> exist on a dictionary; on
  every other value of the model the attribute lookup raises \<open>AttributeError\<close>.
\<close>

definition no_attribute :: "pyval \<Rightarrow> string \<Rightarrow> exn" where
  "no_attribute v attr =
     AttributeError ([CHR 0x27] @ type_name v @ [CHR 0x27] @ '' object has no attribute ''
                     @ [CHR 0x27] @ attr @ [CHR 0x27])"

definition dict_get :: "(string \<times> pyval) list \<Rightarrow> string \<Rightarrow> pyval \<Rightarrow> pyval" where
  "dict_get kvs k dflt = (case map_of kvs k of Some v \<Rightarrow> v | None \<Rightarrow> dflt)"

definition py_get :: "pyval \<Rightarrow> string \<Rightarrow> pyval \<Rightarrow> exn + pyval" where
  "py_get d k dflt =
     (case d of PDict kvs \<Rightarrow> Inr (dict_get kvs k dflt) | _ \<Rightarrow> Inl (no_attribute d ''get''))"

definition py_items :: "pyval \<Rightarrow> exn + (string \<times> pyval) list" where
  "py_items d = (case d of PDict kvs \<Rightarrow> Inr kvs | _ \<Rightarrow> Inl (no_attribute d ''items''))"

text \<open>\<open>d[k] = v\<close>: an existing key keeps its place, a new key goes to the end.\<close>

fun dict_set :: "string \<Rightarrow> pyval \<Rightarrow> (string \<times> pyval) list \<Rightarrow> (string \<times> pyval) list" where
  "dict_set k v [] = [(k, v)]"
| "dict_set k v ((k', v') # kvs) =
     (if k' = k then (k, v) # kvs else (k', v') # dict_set k v kvs)"

subsection \<open>\<open>parse_snmp_value\<close>\<close>

definition type_patterns :: "string list" where
  "type_patterns = [''INTEGER:'', ''STRING:'', ''Gauge32:'', ''Counter32:'', ''Opaque:'', ''OID:'']"

definition is_quote :: "char \<Rightarrow> bool" where
  "is_quote c = (c = CHR 0x22 \<or> c = CHR 0x27)"

text \<open>
  The body of the \<open>try\<close> for text with an \<open>=\<close>: \<open>Some\<close> is the value it returns,
  \<open>None\<close> is falling out of the \<open>if len(parts) > 1\<close>. The \<open>ValueError\<close> of \<open>float()\<close>
  and \<open>int()\<close> is handled inside, by returning the cleaned text.
\<close>

definition parse_assignment :: "string \<Rightarrow> pyval option" where
  "parse_assignment s =
     (let parts = split_once (CHR ''='') s
      in if 1 < length parts
         then let value_part = py_strip (parts ! 1);
                  value_part = foldl (\<lambda>v pattern. re_sub_prefix pattern v) value_part type_patterns;
                  value_part = strip_chars is_quote value_part
              in Some (if CHR ''.'' \<in> set value_part
                       then (case py_float_of_str value_part of
                               Some f \<Rightarrow> PFloat f
                             | None \<Rightarrow> PStr value_part)
                       else (case py_int_of_str value_part of
                               Some i \<Rightarrow> PInt i
                             | None \<Rightarrow> PStr value_part))
         else None)"

definition parse_snmp_value :: "pyval \<Rightarrow> pyval" where
  "parse_snmp_value raw_value =
     (if \<not> truthy raw_value \<or> is_number raw_value then raw_value
      else case (if CHR ''='' \<in> set (py_str raw_value)
                 then parse_assignment (py_str raw_value) else None) of
             Some v \<Rightarrow> v
           | None \<Rightarrow> PStr (py_strip (py_str raw_value)))"

subsection \<open>\<open>get_numeric_value\<close> and \<open>decode_ups_state\<close>\<close>

text \<open>
  Every exception inside the \<open>try\<close> (the \<open>OverflowError\<close> of \<open>float()\<close> on a huge
  integer) is swallowed by the bare \<open>except\<close>, and the function returns \<open>None\<close>.
\<close>

definition get_numeric_value :: "pyval \<Rightarrow> pyfloat option" where
  "get_numeric_value v =
     (case v of
        PNone \<Rightarrow> None
      | PBool b \<Rightarrow> Some (Finite (if b then 1 else 0))
      | PInt i \<Rightarrow> py_float_of_int i
      | PFloat f \<Rightarrow> Some f
      | _ \<Rightarrow> (case re_search_number (py_str v) of
                 Some m \<Rightarrow> py_float_of_str m
               | None \<Rightarrow> None))"

definition state_map :: "int \<Rightarrow> string option" where
  "state_map = map_of
     [(1, ''Unknown''),
      (2, ''Normal Operation''),
      (3, ''On Battery''),
      (4, ''Smart Boost (Low Voltage Compensation)''),
      (5, ''Timed Sleeping''),
      (6, ''Software Bypass''),
      (7, ''Off''),
      (8, ''Rebooting''),
      (9, ''Switched Bypass''),
      (10, ''Hardware Failure Bypass''),
      (11, ''Sleeping Until Power Restored''),
      (12, ''Smart Trim (High Voltage Compensation)'')]"

definition decode_ups_state :: "pyval \<Rightarrow> exn + string" where
  "decode_ups_state state_code =
     (case get_numeric_value state_code of
        Some state_num \<Rightarrow>
          (case py_int_of_float state_num of
             Inl e \<Rightarrow> Inl e
           | Inr n \<Rightarrow>
               Inr (case state_map n of
                      Some d \<Rightarrow> d
                    | None \<Rightarrow> ''Unknown State ('' @ float_repr state_num @ '')''))
      | None \<Rightarrow> Inr ''State Unknown'')"

subsection \<open>The scorer\<close>

text \<open>
  \<open>calculate_quality_score\<close> computes on Python floats. Every value it can reach is an
  integer between \<open>100 - 30 * len(issues)\<close> and \<open>100\<close>; binary64 represents these exactly
  for every list of fewer than \<open>2^53 div 30\<close> issues, and from the first negative value on
  the final \<open>max(0.0, score)\<close> is \<open>0.0\<close> whatever the magnitude. The score is therefore
  modelled by exact rational arithmetic.
\<close>

definition deduction :: "string \<Rightarrow> rat" where
  "deduction issue =
     (if str_contains ''CRITICAL'' issue \<or> str_contains ''POWER_FAILURE'' issue then 30
      else if str_contains ''HIGH'' issue \<or> str_contains ''COMPENSATION'' issue then 15
      else if str_contains ''MODERATE'' issue \<or> str_contains ''WARNING'' issue then 10
      else 5)"

definition calculate_quality_score :: "string list \<Rightarrow> rat" where
  "calculate_quality_score issues =
     (if issues = [] then 100
      else max 0 (foldl (\<lambda>score issue. score - deduction issue) 100 issues))"

subsection \<open>\<open>generate_recommendations\<close>\<close>

definition generate_recommendations :: "string list \<Rightarrow> pyval \<Rightarrow> string list" where
  "generate_recommendations issues monitoring_data =
     (if list_ex (str_contains ''VOLTAGE_COMPENSATION'') issues
      then [''Investigate utility power quality - frequent compensation may indicate upstream issues'',
            ''Consider installing power conditioning equipment'']
      else [])
     @ (if list_ex (str_contains ''HIGH_LOAD'') issues
        then [''Plan for load redistribution or additional UPS capacity'',
              ''Review critical vs non-critical load classification'']
        else [])
     @ (if list_ex (str_contains ''HIGH_TEMPERATURE'') issues
        then [''Check UPS ventilation and ambient temperature'',
              ''Verify UPS internal fans are operational'']
        else [])
     @ (if list_ex (str_contains ''FREQUENCY'') issues
        then [''Contact utility company regarding power quality issues'',
              ''Consider generator or frequency regulation equipment'']
        else [])
     @ (if issues = [] then [''UPS operating normally - continue regular monitoring''] else [])"

subsection \<open>\<open>analyze_power_quality\<close>\<close>

text \<open>The dictionary the evaluator returns; a key that is not set is \<open>None\<close>.\<close>

record analysis =
  power_quality_issues :: "string list"
  alerts :: "string list"
  parsed_snmp_data :: "(string \<times> pyval) list option"
  ups_state_description :: "string option"
  analysis_timestamp :: "string option"
  quality_score :: "rat option"
  recommendations :: "string list option"
  error :: "string option"

text \<open>The two lists \<open>issues\<close> and \<open>alerts\<close> the checks append to.\<close>

type_synonym findings = "string list \<times> string list"

definition emit :: "string \<Rightarrow> string \<Rightarrow> findings \<Rightarrow> findings" where
  "emit issue alert st = (fst st @ [issue], snd st @ [alert])"

text \<open>The loop over \<open>snmp_data.items()\<close> that fills \<open>parsed_data\<close>.\<close>

definition parse_items :: "(string \<times> pyval) list \<Rightarrow> (string \<times> pyval) list" where
  "parse_items items =
     foldl (\<lambda>parsed_data (key, raw_value). dict_set key (parse_snmp_value raw_value) parsed_data)
       [] items"

text \<open>
  The checks below test \<open>if x:\<close> on a result of \<open>get_numeric_value\<close>: \<open>None\<close> and a
  zero are false. \<open>opt_value\<close> is that result as a Python value again.
\<close>

definition opt_value :: "pyfloat option \<Rightarrow> pyval" where
  "opt_value x = (case x of None \<Rightarrow> PNone | Some f \<Rightarrow> PFloat f)"

definition check_voltage :: "pyfloat option \<Rightarrow> findings \<Rightarrow> findings" where
  "check_voltage input_voltage st =
     (case input_voltage of
        None \<Rightarrow> st
      | Some v \<Rightarrow>
          if float_truthy v
          then if float_lt v 200
               then emit (''UNDERVOLTAGE: '' @ float_repr v @ ''V'') ''LOW_VOLTAGE'' st
               else if float_gt v 250
               then emit (''OVERVOLTAGE: '' @ float_repr v @ ''V'') ''HIGH_VOLTAGE'' st
               else st
          else st)"

text \<open>\<open>ups_state == 4\<close>: \<open>None\<close> equals no integer; a float is compared by value.\<close>

definition opt_eq :: "pyfloat option \<Rightarrow> int \<Rightarrow> bool" where
  "opt_eq x n = (case x of None \<Rightarrow> False | Some f \<Rightarrow> float_eq f n)"

definition check_state :: "pyfloat option \<Rightarrow> findings \<Rightarrow> findings" where
  "check_state ups_state st =
     (if opt_eq ups_state 4
      then emit ''VOLTAGE_COMPENSATION: Smart Boost (Low Voltage Compensation)''
             ''COMPENSATION_ACTIVE'' st
      else if opt_eq ups_state 12
      then emit ''VOLTAGE_COMPENSATION: Smart Trim (High Voltage Compensation)''
             ''COMPENSATION_ACTIVE'' st
      else if opt_eq ups_state 3
      then emit ''POWER_FAILURE: Running on Battery'' ''ON_BATTERY'' st
      else st)"

definition check_load :: "pyfloat option \<Rightarrow> pyval \<Rightarrow> findings \<Rightarrow> findings" where
  "check_load output_load capacity_watts st =
     (case output_load of
        None \<Rightarrow> st
      | Some l \<Rightarrow>
          if float_truthy l
          then if float_gt l 80
               then emit (''HIGH_LOAD: '' @ float_repr l @ ''% ('' @ py_str capacity_watts
                          @ ''W capacity)'') ''HIGH_LOAD'' st
               else if float_gt l 60
               then emit (''MODERATE_LOAD: '' @ float_repr l @ ''%'') ''MODERATE_LOAD'' st
               else st
          else st)"

text \<open>
  The source file holds the bytes C3 82 C2 B0 between the field and \<open>C\<close>: the literal is
  the two code points U+00C2 and U+00B0 followed by \<open>C\<close>.
\<close>

definition temperature_suffix :: string where
  "temperature_suffix = [CHR 0xC2, CHR 0xB0, CHR ''C'']"

definition check_temperature :: "pyfloat option \<Rightarrow> findings \<Rightarrow> findings" where
  "check_temperature battery_temp st =
     (case battery_temp of
        None \<Rightarrow> st
      | Some t \<Rightarrow>
          if float_truthy t \<and> float_gt t 35
          then emit (''HIGH_TEMPERATURE: '' @ float_repr t @ temperature_suffix) ''HIGH_TEMP'' st
          else st)"

definition check_frequency :: "pyfloat option \<Rightarrow> findings \<Rightarrow> findings" where
  "check_frequency input_freq st =
     (case input_freq of
        None \<Rightarrow> st
      | Some f \<Rightarrow>
          if float_truthy f
          then if float_lt f 49 \<or> float_gt f 51
               then emit (''FREQUENCY_DEVIATION: '' @ float_repr f @ ''Hz'') ''FREQUENCY_ISSUE'' st
               else st
          else st)"

text \<open>
  The body of the \<open>try\<close>: \<open>Inl\<close> is an exception leaving it. \<open>now\<close> is the text of
  \<open>datetime.now().isoformat()\<close>.
\<close>

definition analyze_body :: "string \<Rightarrow> pyval \<Rightarrow> exn + analysis" where
  "analyze_body now monitoring_data =
     (case py_get monitoring_data ''snmp_data'' (PDict []) of
        Inl e \<Rightarrow> Inl e
      | Inr snmp_data \<Rightarrow>
     (case py_items snmp_data of
        Inl e \<Rightarrow> Inl e
      | Inr items \<Rightarrow>
          let parsed_data = parse_items items;
              input_voltage = get_numeric_value (dict_get parsed_data ''input_voltage'' PNone);
              st = check_voltage input_voltage ([], []);
              ups_state = get_numeric_value (dict_get parsed_data ''ups_basic_state'' PNone)
          in
     (case decode_ups_state (opt_value ups_state) of
        Inl e \<Rightarrow> Inl e
      | Inr state_info \<Rightarrow>
          let st = check_state ups_state st;
              output_load = get_numeric_value (dict_get parsed_data ''output_load'' PNone)
          in
     (case py_get monitoring_data ''capacity_watts'' (PInt 1000) of
        Inl e \<Rightarrow> Inl e
      | Inr capacity_watts \<Rightarrow>
          let st = check_load output_load capacity_watts st;
              battery_temp = get_numeric_value (dict_get parsed_data ''battery_temperature'' PNone);
              st = check_temperature battery_temp st;
              input_freq = get_numeric_value (dict_get parsed_data ''input_frequency'' PNone);
              st = check_frequency input_freq st
          in Inr \<lparr> power_quality_issues = fst st,
                   alerts = snd st,
                   parsed_snmp_data = Some parsed_data,
                   ups_state_description = Some state_info,
                   analysis_timestamp = Some now,
                   quality_score = Some (calculate_quality_score (fst st)),
                   recommendations = Some (generate_recommendations (fst st) monitoring_data),
                   error = None \<rparr>))))"

text \<open>The \<open>except Exception as e\<close> branch.\<close>

definition degraded :: "exn \<Rightarrow> analysis" where
  "degraded e =
     \<lparr> power_quality_issues = [''ANALYSIS_ERROR: '' @ exn_str e],
       alerts = [''ANALYSIS_FAILED''],
       parsed_snmp_data = None,
       ups_state_description = None,
       analysis_timestamp = None,
       quality_score = None,
       recommendations = None,
       error = Some (exn_str e) \<rparr>"

text \<open>
  \<open>try: body except Exception as e: handler\<close>, for a body and a handler that may each
  raise: an exception of the body is passed to the handler, and what the handler raises
  leaves the statement. Every exception of the model is a subclass of \<open>Exception\<close>.
\<close>

definition try_except :: "exn + 'a \<Rightarrow> (exn \<Rightarrow> exn + 'a) \<Rightarrow> exn + 'a" where
  "try_except body handler = (case body of Inl e \<Rightarrow> handler e | Inr v \<Rightarrow> Inr v)"

definition analyze_power_quality :: "string \<Rightarrow> pyval \<Rightarrow> exn + analysis" where
  "analyze_power_quality now monitoring_data =
     try_except (analyze_body now monitoring_data) (\<lambda>e. Inr (degraded e))"

section \<open>Notions used in the statements\<close>

text \<open>A float that is neither an infinity nor a NaN.\<close>

fun is_finite :: "pyfloat \<Rightarrow> bool" where
  "is_finite (Finite r) = True"
| "is_finite NegZero = True"
| "is_finite f = False"

text \<open>The descriptions of the state codes 1 to 12, in the order of the codes.\<close>

definition state_descriptions :: "string list" where
  "state_descriptions =
     [''Unknown'', ''Normal Operation'', ''On Battery'',
      ''Smart Boost (Low Voltage Compensation)'', ''Timed Sleeping'', ''Software Bypass'',
      ''Off'', ''Rebooting'', ''Switched Bypass'', ''Hardware Failure Bypass'',
      ''Sleeping Until Power Restored'', ''Smart Trim (High Voltage Compensation)'']"

text \<open>
  The number the evaluator extracts for a metric name: \<open>get_numeric_value\<close> of the
  normalized entry, \<open>None\<close> when the raw set has no such key.
\<close>

definition metric :: "(string \<times> pyval) list \<Rightarrow> string \<Rightarrow> pyfloat option" where
  "metric items name = get_numeric_value (dict_get (parse_items items) name PNone)"

text \<open>
  The issues and alerts of the voltage rule and of the state rule, recognised by their
  category prefix and by their tag.
\<close>

definition voltage_issue :: "string \<Rightarrow> bool" where
  "voltage_issue i = (starts_with ''UNDERVOLTAGE'' i \<or> starts_with ''OVERVOLTAGE'' i)"

definition voltage_alert :: "string \<Rightarrow> bool" where
  "voltage_alert x = (x = ''LOW_VOLTAGE'' \<or> x = ''HIGH_VOLTAGE'')"

definition state_issue :: "string \<Rightarrow> bool" where
  "state_issue i = (starts_with ''VOLTAGE_COMPENSATION'' i \<or> starts_with ''POWER_FAILURE'' i)"

definition state_alert :: "string \<Rightarrow> bool" where
  "state_alert x = (x = ''COMPENSATION_ACTIVE'' \<or> x = ''ON_BATTERY'')"

text \<open>
  The end-to-end example of the specification: 180 V, state 3 (on battery), 45 % load, a
  capacity of 1500 W.
\<close>

definition example_data :: pyval where
  "example_data =
     PDict [(''snmp_data'', PDict
              [(''input_voltage'', PStr ''1.3.6.1.4.1.318.1.1.1.3.2.1.0 = INTEGER: 180''),
               (''ups_basic_state'', PStr ''1.3.6.1.4.1.318.1.1.1.11.1.1.0 = INTEGER: 3''),
               (''output_load'', PStr ''1.3.6.1.4.1.318.1.1.1.4.2.3.0 = INTEGER: 45'')]),
            (''capacity_watts'', PInt 1500)]"

text \<open>
  The normalizer as claim C7 words it, for text with an \<open>=\<close>: the remainder after the
  first \<open>=\<close>, stripped; one leading type tag removed, with the white space after it; one
  layer of quotes removed from the ends; then the numeric conversion.
\<close>

definition strip_one_tag :: "string \<Rightarrow> string" where
  "strip_one_tag s =
     (case filter (\<lambda>tag. starts_with tag s) type_patterns of
        [] \<Rightarrow> s
      | tag # _ \<Rightarrow> dropWhile is_space (drop (length tag) s))"

definition strip_one_quote_layer :: "string \<Rightarrow> string" where
  "strip_one_quote_layer s =
     (let s1 = (case s of [] \<Rightarrow> [] | c # cs \<Rightarrow> if is_quote c then cs else s)
      in if s1 \<noteq> [] \<and> is_quote (last s1) then butlast s1 else s1)"

definition number_or_text :: "string \<Rightarrow> pyval" where
  "number_or_text v =
     (if CHR ''.'' \<in> set v
      then (case py_float_of_str v of Some f \<Rightarrow> PFloat f | None \<Rightarrow> PStr v)
      else (case py_int_of_str v of Some i \<Rightarrow> PInt i | None \<Rightarrow> PStr v))"

definition after_equals :: "string \<Rightarrow> string" where
  "after_equals s = tl (dropWhile (\<lambda>c. c \<noteq> CHR ''='') s)"

definition normalize_claimed :: "string \<Rightarrow> pyval" where
  "normalize_claimed s =
     number_or_text (strip_one_quote_layer (strip_one_tag (py_strip (after_equals s))))"

text \<open>
  The six substitutions of \<open>type_patterns\<close> applied one after the other, written out.
\<close>

definition strip_tags_in_order :: "string \<Rightarrow> string" where
  "strip_tags_in_order s =
     re_sub_prefix ''OID:'' (re_sub_prefix ''Opaque:'' (re_sub_prefix ''Counter32:''
       (re_sub_prefix ''Gauge32:'' (re_sub_prefix ''STRING:'' (re_sub_prefix ''INTEGER:'' s)))))"

section \<open>Properties\<close>

subsection \<open>Scorer\<close>

lemma deduction_cases:
  "deduction i = 30 \<or> deduction i = 15 \<or> deduction i = 10 \<or> deduction i = 5"
  by (simp add: deduction_def)

lemma deduction_pos: "0 < deduction i"
  using deduction_cases [of i] by auto

lemma foldl_deduct: "foldl (\<lambda>score issue. score - deduction issue) s issues = s - sum_list (map deduction issues)"
  by (induction issues arbitrary: s) auto

lemma sum_deduction_nonneg: "0 \<le> sum_list (map deduction issues)"
  by (induction issues) (auto intro: add_nonneg_nonneg less_imp_le [OF deduction_pos])

text \<open>
  C2. The score starts at 100 and subtracts, per issue, the deduction of the first matching
  rule in the order CRITICAL/POWER_FAILURE (30), HIGH/COMPENSATION (15), MODERATE/WARNING
  (10), otherwise 5; the sum of the deductions is taken off 100 and the result is clamped
  at 0, so it always lies in [0, 100]; the empty list scores exactly 100 and the single
  issue \<open>HIGH_LOAD: 85% (1000W capacity)\<close> scores 85.
\<close>

theorem quality_score_spec:
  "calculate_quality_score issues = max 0 (100 - sum_list (map deduction issues))
   \<and> deduction i =
       (if str_contains ''CRITICAL'' i \<or> str_contains ''POWER_FAILURE'' i then 30
        else if str_contains ''HIGH'' i \<or> str_contains ''COMPENSATION'' i then 15
        else if str_contains ''MODERATE'' i \<or> str_contains ''WARNING'' i then 10
        else 5)
   \<and> 0 \<le> calculate_quality_score issues \<and> calculate_quality_score issues \<le> 100
   \<and> calculate_quality_score [] = 100
   \<and> calculate_quality_score [''HIGH_LOAD: 85% (1000W capacity)''] = 85"
proof -
  have a: "calculate_quality_score issues = max 0 (100 - sum_list (map deduction issues))"
    by (cases issues) (simp_all add: calculate_quality_score_def foldl_deduct)
  have b: "0 \<le> calculate_quality_score issues \<and> calculate_quality_score issues \<le> 100"
    unfolding a using sum_deduction_nonneg [of issues] by simp
  have c: "calculate_quality_score [] = 100"
    by (simp add: calculate_quality_score_def)
  have d: "deduction ''HIGH_LOAD: 85% (1000W capacity)'' = 15"
    by (simp add: deduction_def)
  have e: "calculate_quality_score [''HIGH_LOAD: 85% (1000W capacity)''] = 85"
    by (simp add: calculate_quality_score_def d)
  show ?thesis using a b c e by (simp add: deduction_def)
qed

subsection \<open>Rounding\<close>

lemma bit_length_bound: "n < 2 ^ k \<Longrightarrow> bit_length n \<le> k"
proof (induction k arbitrary: n)
  case 0
  then show ?case by (simp add: bit_length.simps)
next
  case (Suc k)
  show ?case
  proof (cases "n = 0")
    case True
    then show ?thesis by (simp add: bit_length.simps)
  next
    case False
    from Suc.prems have "n div 2 < 2 ^ k" by simp
    then have "bit_length (n div 2) \<le> k" by (rule Suc.IH)
    with False show ?thesis by (subst bit_length.simps) simp
  qed
qed

lemma round_half_even_int: "round_half_even (of_int n) = n"
  by (simp add: round_half_even_def)

lemma round_binary64_int:
  assumes "0 < n" "n < 2 ^ 53"
  shows "round_binary64 (of_int n) = Some (of_int n)"
proof -
  define b where "b = bit_length (nat n)"
  have b53: "b \<le> 53"
    unfolding b_def using assms by (intro bit_length_bound) (simp add: nat_less_iff)
  have bpos: "0 < b"
    unfolding b_def using assms by (subst bit_length.simps) simp
  have fl: "floor_log2 (of_int n) = int b - 1"
    using assms by (simp add: floor_log2_def b_def)
  have mx: "max (int b - 1) (- 1022) = int b - 1" by simp
  have q: "pow2 (int b - 1 - 52) = 1 / 2 ^ (53 - b)"
    using b53 bpos by (simp add: pow2_def nat_diff_distrib')
  have "(of_int n :: rat) / (1 / 2 ^ (53 - b)) = of_int (n * 2 ^ (53 - b))" by simp
  then have r: "round_half_even (of_int n / (1 / 2 ^ (53 - b))) = n * 2 ^ (53 - b)"
    by (simp only: round_half_even_int)
  have v: "(of_int (n * 2 ^ (53 - b)) :: rat) * (1 / 2 ^ (53 - b)) = of_int n" by simp
  have "(of_int n :: rat) < 2 ^ 53"
    using assms by (metis of_int_less_iff of_int_numeral of_int_power)
  also have "\<dots> < 2 ^ 1024" by simp
  finally have lt: "\<not> pow2 1024 \<le> (of_int n :: rat)" by (simp add: pow2_def)
  show ?thesis
    unfolding round_binary64_def fl mx q Let_def r v using lt by simp
qed

lemma round_binary64_numeral:
  "(numeral k :: int) < 2 ^ 53 \<Longrightarrow> round_binary64 (numeral k) = Some (numeral k)"
  using round_binary64_int [of "numeral k"] by simp

lemma py_float_of_int_numeral:
  "(numeral k :: int) < 2 ^ 53 \<Longrightarrow> py_float_of_int (numeral k) = Some (Finite (numeral k))"
  by (simp add: py_float_of_int_def round_binary64_numeral)

lemma py_float_of_int_finite: "py_float_of_int i = Some f \<Longrightarrow> is_finite f"
  by (auto simp: py_float_of_int_def split: if_splits option.splits)

subsection \<open>Decoder\<close>

lemma py_int_of_float_finite:
  "py_int_of_float f = (if is_finite f
     then Inr (case f of Finite r \<Rightarrow> if 0 \<le> r then \<lfloor>r\<rfloor> else \<lceil>r\<rceil> | _ \<Rightarrow> 0)
     else Inl (case f of NaN \<Rightarrow> ValueError ''cannot convert float NaN to integer''
                       | _ \<Rightarrow> OverflowError ''cannot convert float infinity to integer''))"
  by (cases f) (simp_all add: py_int_of_float_def)

lemma state_map_table:
  "state_map n = (if 1 \<le> n \<and> n \<le> 12 then Some (state_descriptions ! nat (n - 1)) else None)"
proof (cases "1 \<le> n \<and> n \<le> 12")
  case True
  then have "n \<le> 6 \<and> (n = 6 \<or> n = 5 \<or> n = 4 \<or> n = 3 \<or> n = 2 \<or> n = 1)
    \<or> 6 < n \<and> (n = 12 \<or> n = 11 \<or> n = 10 \<or> n = 9 \<or> n = 8 \<or> n = 7)" by arith
  then show ?thesis
    by (auto simp: state_map_def state_descriptions_def)
next
  case False
  then show ?thesis by (auto simp: state_map_def)
qed

text \<open>
  C10 fails for the non-finite floats it names: \<open>int()\<close> of an infinity raises
  \<open>OverflowError\<close> (of a NaN, \<open>ValueError\<close>), and \<open>decode_ups_state\<close> does not catch it.
\<close>

theorem decode_ups_state_counterexample:
  "decode_ups_state (PFloat PosInf) = Inl (OverflowError ''cannot convert float infinity to integer'')"
  by (simp add: decode_ups_state_def get_numeric_value_def py_int_of_float_def)

text \<open>
  C10, amended. \<open>decode_ups_state\<close> returns a text without raising for every input whose
  extracted number is absent or finite: \<open>None\<close>, every integer and boolean, every finite
  float; an input without a number in it yields \<open>State Unknown\<close>. When the extracted
  number is an infinity or a NaN, the call raises.
\<close>

theorem decode_ups_state_total_on_finite:
  "(get_numeric_value v = None \<longrightarrow> decode_ups_state v = Inr ''State Unknown'')
   \<and> (\<forall>f. get_numeric_value v = Some f \<and> is_finite f \<longrightarrow> (\<exists>d. decode_ups_state v = Inr d))
   \<and> (\<forall>f. get_numeric_value v = Some f \<and> \<not> is_finite f \<longrightarrow> (\<exists>e. decode_ups_state v = Inl e))
   \<and> decode_ups_state PNone = Inr ''State Unknown''
   \<and> (\<exists>d. decode_ups_state (PInt i) = Inr d)
   \<and> (\<exists>d. decode_ups_state (PBool b) = Inr d)
   \<and> (re_search_number s = None \<longrightarrow> decode_ups_state (PStr s) = Inr ''State Unknown'')"
proof -
  have a: "get_numeric_value v = None \<longrightarrow> decode_ups_state v = Inr ''State Unknown''"
    by (simp add: decode_ups_state_def)
  have b: "\<forall>f. get_numeric_value v = Some f \<and> is_finite f \<longrightarrow> (\<exists>d. decode_ups_state v = Inr d)"
    by (simp add: decode_ups_state_def py_int_of_float_finite)
  have c: "\<forall>f. get_numeric_value v = Some f \<and> \<not> is_finite f \<longrightarrow> (\<exists>e. decode_ups_state v = Inl e)"
    by (simp add: decode_ups_state_def py_int_of_float_finite)
  have d: "decode_ups_state PNone = Inr ''State Unknown''"
    by (simp add: decode_ups_state_def get_numeric_value_def)
  have e: "\<exists>d. decode_ups_state (PInt i) = Inr d"
  proof (cases "py_float_of_int i")
    case None
    then show ?thesis by (simp add: decode_ups_state_def get_numeric_value_def)
  next
    case (Some f)
    then have "is_finite f" by (rule py_float_of_int_finite)
    with Some show ?thesis
      by (simp add: decode_ups_state_def get_numeric_value_def py_int_of_float_finite)
  qed
  have f: "\<exists>d. decode_ups_state (PBool b) = Inr d"
    by (simp add: decode_ups_state_def get_numeric_value_def py_int_of_float_finite)
  have g: "re_search_number s = None \<longrightarrow> decode_ups_state (PStr s) = Inr ''State Unknown''"
    by (simp add: decode_ups_state_def get_numeric_value_def py_str_def)
  from a b c d e f g show ?thesis by blast
qed

theorem decode_ups_state_total_on_finite_witness:
  "get_numeric_value (PStr ''n/a'') = None
   \<and> decode_ups_state (PStr ''n/a'') = Inr ''State Unknown''
   \<and> get_numeric_value (PFloat (Finite (9 / 2))) = Some (Finite (9 / 2))
   \<and> is_finite (Finite (9 / 2))
   \<and> (\<exists>d. decode_ups_state (PFloat (Finite (9 / 2))) = Inr d)
   \<and> get_numeric_value (PFloat NaN) = Some NaN
   \<and> \<not> is_finite NaN
   \<and> (\<exists>e. decode_ups_state (PFloat NaN) = Inl e)
   \<and> re_search_number ''n/a'' = None"
proof -
  have h1: "get_numeric_value (PStr ''n/a'') = None"
    by (simp add: get_numeric_value_def py_str_def match_number_at_def is_digit_def)
  have h2: "get_numeric_value (PFloat (Finite (9 / 2))) = Some (Finite (9 / 2))"
    by (simp add: get_numeric_value_def)
  have h3: "get_numeric_value (PFloat NaN) = Some NaN"
    by (simp add: get_numeric_value_def)
  have h4: "re_search_number ''n/a'' = None"
    by (simp add: match_number_at_def is_digit_def)
  from decode_ups_state_total_on_finite [of "PStr ''n/a''" 0 True "''n/a''"] h1
  have c1: "decode_ups_state (PStr ''n/a'') = Inr ''State Unknown''" by blast
  from decode_ups_state_total_on_finite [of "PFloat (Finite (9 / 2))" 0 True "''n/a''"] h2
  have c2: "\<exists>d. decode_ups_state (PFloat (Finite (9 / 2))) = Inr d" by simp
  from decode_ups_state_total_on_finite [of "PFloat NaN" 0 True "''n/a''"] h3
  have c3: "\<exists>e. decode_ups_state (PFloat NaN) = Inl e" by simp
  from h1 h2 h3 h4 c1 c2 c3 show ?thesis by simp
qed

subsection \<open>Evaluating the float printer\<close>

lemma floor_rat_numeral_div:
  "\<lfloor>(numeral a :: rat) / numeral b\<rfloor> = numeral a div numeral b"
  using floor_divide_of_int_eq [of "numeral a" "numeral b", where ?'a = rat] by simp

lemma ceiling_rat_numeral_div:
  "\<lceil>(numeral a :: rat) / numeral b\<rceil> = - ((- numeral a) div numeral b)"
  using ceiling_divide_eq_div [of "numeral a" "numeral b", where ?'a = rat] by simp

lemma show_nat_eval:
  "show_nat 0 = ''0''"
  "show_nat (Suc 0) = ''1''"
  "show_nat (numeral k) =
     (if numeral k < (10::nat) then [''0123456789'' ! numeral k]
      else show_nat (numeral k div 10) @ [''0123456789'' ! (numeral k mod 10)])"
  by (subst show_nat.simps, simp)+

lemma dec_length_eval:
  "dec_length 0 = 0"
  "dec_length (Suc 0) = 1"
  "dec_length (numeral k) = Suc (dec_length (numeral k div 10))"
  by (subst dec_length.simps, simp add: dec_length.simps)+

lemmas repr_eval = repr_candidate_def pow10_def round_binary64_numeral Let_def
  floor_rat_numeral_div ceiling_rat_numeral_div

lemma decpt_99: "decpt 99 = 2"
  by (simp add: decpt_def dec_length_eval)

lemma shortest_repr_99: "shortest_repr 99 (Suc 0) 17 = 99"
proof -
  have "repr_candidate 99 (Suc 0) = None"
    by (simp add: repr_eval decpt_99)
  moreover have "repr_candidate 99 (Suc (Suc 0)) = Some 99"
    by (simp add: repr_eval decpt_99)
  ultimately show ?thesis by (simp add: eval_nat_numeral)
qed

lemma float_repr_99: "float_repr (Finite 99) = ''99.0''"
proof -
  have "repr_digits 99 = (''99'', 2)"
    by (simp add: repr_digits_def shortest_repr_99 decpt_99 pow10_def show_nat_eval)
  then show ?thesis by (simp add: float_repr_def format_repr_def)
qed

lemma decpt_180: "decpt 180 = 3"
  by (simp add: decpt_def dec_length_eval)

lemma shortest_repr_180: "shortest_repr 180 (Suc 0) 17 = 180"
proof -
  have "repr_candidate 180 (Suc 0) = None"
    by (simp add: repr_eval decpt_180)
  moreover have "repr_candidate 180 (Suc (Suc 0)) = Some 180"
    by (simp add: repr_eval decpt_180)
  ultimately show ?thesis by (simp add: eval_nat_numeral)
qed

lemma float_repr_180: "float_repr (Finite 180) = ''180.0''"
proof -
  have "repr_digits 180 = (''18'', 3)"
    by (simp add: repr_digits_def shortest_repr_180 decpt_180 pow10_def show_nat_eval)
  then show ?thesis by (simp add: float_repr_def format_repr_def)
qed

lemma decpt_40: "decpt 40 = 2"
  by (simp add: decpt_def dec_length_eval)

lemma shortest_repr_40: "shortest_repr 40 (Suc 0) 17 = 40"
proof -
  have "repr_candidate 40 (Suc 0) = Some 40"
    by (simp add: repr_eval decpt_40)
  then show ?thesis by (simp add: eval_nat_numeral)
qed

lemma float_repr_40: "float_repr (Finite 40) = ''40.0''"
proof -
  have "repr_digits 40 = (''4'', 2)"
    by (simp add: repr_digits_def shortest_repr_40 decpt_40 pow10_def show_nat_eval)
  then show ?thesis by (simp add: float_repr_def format_repr_def)
qed

subsection \<open>Decoder, C5\<close>

lemma decode_4: "decode_ups_state (PInt 4) = Inr ''Smart Boost (Low Voltage Compensation)''"
  by (simp add: decode_ups_state_def get_numeric_value_def py_float_of_int_numeral
      py_int_of_float_def state_map_def)

lemma decode_99: "decode_ups_state (PInt 99) = Inr ''Unknown State (99.0)''"
  by (simp add: decode_ups_state_def get_numeric_value_def py_float_of_int_numeral
      py_int_of_float_def state_map_def float_repr_99)

text \<open>
  C5 fails on its second example: the default of the table lookup interpolates the float
  \<open>state_num\<close>, not the truncated integer, so the text for 99 ends in \<open>(99.0)\<close>.
\<close>

theorem decode_ups_state_99_counterexample:
  "decode_ups_state (PInt 99) = Inr ''Unknown State (99.0)''
   \<and> decode_ups_state (PInt 99) \<noteq> Inr ''Unknown State (99)''"
  by (simp add: decode_99)

text \<open>
  C5, amended. \<open>decode_ups_state\<close> passes its input through \<open>get_numeric_value\<close>; when
  that yields nothing the result is \<open>State Unknown\<close>; a finite value is truncated toward
  zero and looked up in the table of the twelve codes, so the code 4 gives \<open>Smart Boost
  (Low Voltage Compensation)\<close>; when the truncated value is outside 1..12 the result is
  \<open>Unknown State (x)\<close> with the float itself printed, so 99 gives
  \<open>Unknown State (99.0)\<close>.
\<close>

theorem decode_ups_state_spec:
  "(get_numeric_value v = None \<longrightarrow> decode_ups_state v = Inr ''State Unknown'')
   \<and> (\<forall>r. get_numeric_value v = Some (Finite r) \<longrightarrow>
         decode_ups_state v =
           Inr (let n = (if 0 \<le> r then \<lfloor>r\<rfloor> else \<lceil>r\<rceil>)
                in if 1 \<le> n \<and> n \<le> 12 then state_descriptions ! nat (n - 1)
                   else ''Unknown State ('' @ float_repr (Finite r) @ '')''))
   \<and> (get_numeric_value v = Some NegZero \<longrightarrow> decode_ups_state v = Inr ''Unknown State (-0.0)'')
   \<and> decode_ups_state (PInt 4) = Inr ''Smart Boost (Low Voltage Compensation)''
   \<and> decode_ups_state (PInt 99) = Inr ''Unknown State (99.0)''"
proof -
  have a: "get_numeric_value v = None \<longrightarrow> decode_ups_state v = Inr ''State Unknown''"
    by (simp add: decode_ups_state_def)
  have b: "\<forall>r. get_numeric_value v = Some (Finite r) \<longrightarrow>
         decode_ups_state v =
           Inr (let n = (if 0 \<le> r then \<lfloor>r\<rfloor> else \<lceil>r\<rceil>)
                in if 1 \<le> n \<and> n \<le> 12 then state_descriptions ! nat (n - 1)
                   else ''Unknown State ('' @ float_repr (Finite r) @ '')'')"
    by (simp add: decode_ups_state_def py_int_of_float_def state_map_table Let_def)
  have c: "get_numeric_value v = Some NegZero \<longrightarrow> decode_ups_state v = Inr ''Unknown State (-0.0)''"
    by (simp add: decode_ups_state_def py_int_of_float_def state_map_table float_repr_def)
  from a b c decode_4 decode_99 show ?thesis by blast
qed

theorem decode_ups_state_spec_witness:
  "get_numeric_value (PStr ''n/a'') = None
   \<and> decode_ups_state (PStr ''n/a'') = Inr ''State Unknown''
   \<and> get_numeric_value (PFloat (Finite (25 / 2))) = Some (Finite (25 / 2))
   \<and> decode_ups_state (PFloat (Finite (25 / 2))) = Inr ''Smart Trim (High Voltage Compensation)''
   \<and> get_numeric_value (PFloat NegZero) = Some NegZero
   \<and> decode_ups_state (PFloat NegZero) = Inr ''Unknown State (-0.0)''"
proof -
  have h1: "get_numeric_value (PStr ''n/a'') = None"
    by (simp add: get_numeric_value_def py_str_def match_number_at_def is_digit_def)
  have h2: "get_numeric_value (PFloat (Finite (25 / 2))) = Some (Finite (25 / 2))"
    by (simp add: get_numeric_value_def)
  have h3: "get_numeric_value (PFloat NegZero) = Some NegZero"
    by (simp add: get_numeric_value_def)
  from decode_ups_state_spec [of "PStr ''n/a''"] h1
  have c1: "decode_ups_state (PStr ''n/a'') = Inr ''State Unknown''" by blast
  from decode_ups_state_spec [of "PFloat (Finite (25 / 2))"] h2
  have "decode_ups_state (PFloat (Finite (25 / 2))) =
           Inr (let n = (if (0::rat) \<le> 25 / 2 then \<lfloor>(25::rat) / 2\<rfloor> else \<lceil>(25::rat) / 2\<rceil>)
                in if 1 \<le> n \<and> n \<le> 12 then state_descriptions ! nat (n - 1)
                   else ''Unknown State ('' @ float_repr (Finite (25 / 2)) @ '')'')" by blast
  then have c2: "decode_ups_state (PFloat (Finite (25 / 2))) = Inr ''Smart Trim (High Voltage Compensation)''"
    by (simp add: floor_rat_numeral_div state_descriptions_def)
  from decode_ups_state_spec [of "PFloat NegZero"] h3
  have c3: "decode_ups_state (PFloat NegZero) = Inr ''Unknown State (-0.0)''" by blast
  from h1 h2 h3 c1 c2 c3 show ?thesis by simp
qed

subsection \<open>The evaluator never raises\<close>

text \<open>
  C1. For every value \<open>monitoring_data\<close> the evaluator returns a result and raises
  nothing; when an exception leaves the body of the \<open>try\<close>, the result has exactly the
  issue \<open>ANALYSIS_ERROR: message\<close>, exactly the alert \<open>ANALYSIS_FAILED\<close>, and the
  message in its \<open>error\<close> field.
\<close>

theorem analyze_power_quality_never_raises:
  "\<exists>a. analyze_power_quality now monitoring_data = Inr a
       \<and> (\<forall>e. analyze_body now monitoring_data = Inl e \<longrightarrow>
              power_quality_issues a = [''ANALYSIS_ERROR: '' @ exn_str e]
              \<and> alerts a = [''ANALYSIS_FAILED'']
              \<and> error a = Some (exn_str e))"
  by (cases "analyze_body now monitoring_data")
     (simp_all add: analyze_power_quality_def try_except_def degraded_def)

lemma analyze_body_not_a_mapping:
  "analyze_body now PNone =
     Inl (AttributeError ([CHR 0x27] @ ''NoneType'' @ [CHR 0x27] @ '' object has no attribute ''
                          @ [CHR 0x27] @ ''get'' @ [CHR 0x27]))"
  by (simp add: analyze_body_def py_get_def no_attribute_def)

lemma analyze_body_infinite_state:
  "analyze_body now (PDict [(''snmp_data'', PDict [(''ups_basic_state'', PFloat PosInf)])]) =
     Inl (OverflowError ''cannot convert float infinity to integer'')"
  by (simp add: analyze_body_def py_get_def dict_get_def py_items_def parse_items_def
      parse_snmp_value_def float_truthy_def get_numeric_value_def check_voltage_def
      opt_value_def decode_ups_state_def py_int_of_float_def)

theorem analyze_power_quality_never_raises_witness:
  "analyze_body ''2024-01-01T00:00:00'' PNone =
     Inl (AttributeError ([CHR 0x27] @ ''NoneType'' @ [CHR 0x27] @ '' object has no attribute ''
                          @ [CHR 0x27] @ ''get'' @ [CHR 0x27]))
   \<and> (\<exists>a. analyze_power_quality ''2024-01-01T00:00:00'' PNone = Inr a
          \<and> power_quality_issues a =
              [''ANALYSIS_ERROR: '' @ [CHR 0x27] @ ''NoneType'' @ [CHR 0x27]
               @ '' object has no attribute '' @ [CHR 0x27] @ ''get'' @ [CHR 0x27]]
          \<and> alerts a = [''ANALYSIS_FAILED'']
          \<and> error a = Some ([CHR 0x27] @ ''NoneType'' @ [CHR 0x27]
               @ '' object has no attribute '' @ [CHR 0x27] @ ''get'' @ [CHR 0x27]))
   \<and> (\<exists>a. analyze_power_quality ''2024-01-01T00:00:00''
              (PDict [(''snmp_data'', PDict [(''ups_basic_state'', PFloat PosInf)])]) = Inr a
          \<and> power_quality_issues a = [''ANALYSIS_ERROR: cannot convert float infinity to integer'']
          \<and> alerts a = [''ANALYSIS_FAILED'']
          \<and> error a = Some ''cannot convert float infinity to integer'')"
proof -
  note h1 = analyze_body_not_a_mapping [of "''2024-01-01T00:00:00''"]
  note h2 = analyze_body_infinite_state [of "''2024-01-01T00:00:00''"]
  from analyze_power_quality_never_raises [of "''2024-01-01T00:00:00''" PNone] h1
  have c1: "\<exists>a. analyze_power_quality ''2024-01-01T00:00:00'' PNone = Inr a
          \<and> power_quality_issues a =
              [''ANALYSIS_ERROR: '' @ [CHR 0x27] @ ''NoneType'' @ [CHR 0x27]
               @ '' object has no attribute '' @ [CHR 0x27] @ ''get'' @ [CHR 0x27]]
          \<and> alerts a = [''ANALYSIS_FAILED'']
          \<and> error a = Some ([CHR 0x27] @ ''NoneType'' @ [CHR 0x27]
               @ '' object has no attribute '' @ [CHR 0x27] @ ''get'' @ [CHR 0x27])"
    by auto
  from analyze_power_quality_never_raises [of "''2024-01-01T00:00:00''"
      "PDict [(''snmp_data'', PDict [(''ups_basic_state'', PFloat PosInf)])]"] h2
  have c2: "\<exists>a. analyze_power_quality ''2024-01-01T00:00:00''
              (PDict [(''snmp_data'', PDict [(''ups_basic_state'', PFloat PosInf)])]) = Inr a
          \<and> power_quality_issues a = [''ANALYSIS_ERROR: cannot convert float infinity to integer'']
          \<and> alerts a = [''ANALYSIS_FAILED'']
          \<and> error a = Some ''cannot convert float infinity to integer''"
    by auto
  from h1 c1 c2 show ?thesis by blast
qed

subsection \<open>The normalized mapping\<close>

lemma dict_set_new: "k \<notin> set (map fst kvs) \<Longrightarrow> dict_set k v kvs = kvs @ [(k, v)]"
  by (induction kvs) auto

lemma dict_set_keys: "fst ` set (dict_set k v kvs) = insert k (fst ` set kvs)"
proof (induction kvs)
  case Nil
  then show ?case by simp
next
  case (Cons kv kvs)
  obtain k' v' where kv: "kv = (k', v')" by (cases kv)
  show ?case
  proof (cases "k' = k")
    case True
    then show ?thesis by (simp add: kv)
  next
    case False
    then show ?thesis using Cons.IH by (simp add: kv insert_commute)
  qed
qed

lemma parse_loop_keys:
  "fst ` set (foldl (\<lambda>parsed_data (key, raw_value).
       dict_set key (parse_snmp_value raw_value) parsed_data) acc items)
   = fst ` set acc \<union> fst ` set items"
proof (induction items arbitrary: acc)
  case Nil
  then show ?case by simp
next
  case (Cons kv items)
  obtain k v where kv: "kv = (k, v)" by (cases kv)
  show ?case
    by (simp add: kv Cons.IH dict_set_keys)
qed

lemma parse_loop_distinct:
  "distinct (map fst items) \<Longrightarrow> set (map fst acc) \<inter> set (map fst items) = {} \<Longrightarrow>
   foldl (\<lambda>parsed_data (key, raw_value).
       dict_set key (parse_snmp_value raw_value) parsed_data) acc items
   = acc @ map (\<lambda>(k, v). (k, parse_snmp_value v)) items"
proof (induction items arbitrary: acc)
  case Nil
  then show ?case by simp
next
  case (Cons kv items)
  obtain k v where kv: "kv = (k, v)" by (cases kv)
  from Cons.prems kv have new: "k \<notin> set (map fst acc)" by auto
  have disj: "set (map fst (acc @ [(k, parse_snmp_value v)])) \<inter> set (map fst items) = {}"
    using Cons.prems kv by auto
  have dist: "distinct (map fst items)" using Cons.prems by simp
  show ?case
    using Cons.IH [OF dist disj] by (simp add: kv dict_set_new [OF new])
qed

lemma analyze_body_parsed:
  assumes "analyze_body now monitoring_data = Inr a"
  shows "\<exists>items. py_get monitoring_data ''snmp_data'' (PDict []) = Inr (PDict items)
           \<and> parsed_snmp_data a = Some (parse_items items)"
  using assms
  by (auto simp: analyze_body_def py_items_def Let_def split: sum.splits pyval.splits)

lemmas text_eval = is_space_def is_num_space_def is_digit_def strip_chars_def py_strip_def
  split_once_def re_sub_prefix_def type_patterns_def is_quote_def split_sign_def
  digits_value_def digit_val_def

lemmas parse_eval = parse_snmp_value_def py_str_def parse_assignment_def py_int_of_str_def
  text_eval

lemmas body_eval = analyze_body_def py_get_def dict_get_def py_items_def parse_items_def
  opt_value_def check_voltage_def check_state_def check_load_def check_temperature_def
  check_frequency_def emit_def decode_ups_state_def get_numeric_value_def
  float_truthy_def float_lt_def float_gt_def float_eq_def opt_eq_def
  py_int_of_float_def state_map_def calculate_quality_score_def deduction_def
  generate_recommendations_def py_float_of_int_numeral

lemma parse_228: "parse_snmp_value (PStr ''1.3.6.1 = INTEGER: 228'') = PInt 228"
  by (simp add: parse_eval)

lemma parse_model:
  "parse_snmp_value (PStr (''1.3.6.1 = STRING: '' @ [CHR 0x22] @ ''Smart-UPS 1500'' @ [CHR 0x22]))
   = PStr ''Smart-UPS 1500''"
  by (simp add: parse_eval)

lemma analyze_normal:
  "analyze_power_quality ''2024-01-01T00:00:00''
     (PDict [(''snmp_data'', PDict
        [(''input_voltage'', PStr ''1.3.6.1 = INTEGER: 228''),
         (''model'', PStr (''1.3.6.1 = STRING: '' @ [CHR 0x22] @ ''Smart-UPS 1500'' @ [CHR 0x22]))])])
   = Inr \<lparr> power_quality_issues = [],
            alerts = [],
            parsed_snmp_data = Some [(''input_voltage'', PInt 228), (''model'', PStr ''Smart-UPS 1500'')],
            ups_state_description = Some ''State Unknown'',
            analysis_timestamp = Some ''2024-01-01T00:00:00'',
            quality_score = Some 100,
            recommendations = Some [''UPS operating normally - continue regular monitoring''],
            error = None \<rparr>"
  using parse_228 parse_model
  by (simp add: analyze_power_quality_def try_except_def body_eval)

text \<open>
  C9. The loop over the raw metric set produces a mapping with exactly the keys of the raw
  set, in the same order, each with the normalized value of its raw value; and this mapping
  is the \<open>parsed_snmp_data\<close> of every result the evaluator computes without failing.
\<close>

theorem normalization_keeps_every_key:
  "set (map fst (parse_items items)) = set (map fst items)
   \<and> (distinct (map fst items) \<longrightarrow>
        parse_items items = map (\<lambda>(k, v). (k, parse_snmp_value v)) items)
   \<and> (\<forall>a. py_get monitoring_data ''snmp_data'' (PDict []) = Inr (PDict items)
           \<and> analyze_power_quality now monitoring_data = Inr a \<and> error a = None \<longrightarrow>
           parsed_snmp_data a = Some (parse_items items))"
proof -
  have a: "set (map fst (parse_items items)) = set (map fst items)"
    by (simp add: parse_items_def parse_loop_keys)
  have b: "distinct (map fst items) \<longrightarrow>
        parse_items items = map (\<lambda>(k, v). (k, parse_snmp_value v)) items"
    using parse_loop_distinct [of items "[]"] by (simp add: parse_items_def)
  have c: "\<forall>a. py_get monitoring_data ''snmp_data'' (PDict []) = Inr (PDict items)
           \<and> analyze_power_quality now monitoring_data = Inr a \<and> error a = None \<longrightarrow>
           parsed_snmp_data a = Some (parse_items items)"
  proof (intro allI impI, elim conjE)
    fix a
    assume g: "py_get monitoring_data ''snmp_data'' (PDict []) = Inr (PDict items)"
      and r: "analyze_power_quality now monitoring_data = Inr a" and ok: "error a = None"
    show "parsed_snmp_data a = Some (parse_items items)"
    proof (cases "analyze_body now monitoring_data")
      case (Inl e)
      with r ok show ?thesis
        by (simp add: analyze_power_quality_def try_except_def degraded_def) auto
    next
      case (Inr a')
      with r have "a' = a" by (simp add: analyze_power_quality_def try_except_def)
      with Inr analyze_body_parsed [of now monitoring_data a] g show ?thesis by auto
    qed
  qed
  from a b c show ?thesis by blast
qed

theorem normalization_keeps_every_key_witness:
  "distinct (map fst
      [(''input_voltage'', PStr ''1.3.6.1 = INTEGER: 228''),
       (''model'', PStr (''1.3.6.1 = STRING: '' @ [CHR 0x22] @ ''Smart-UPS 1500'' @ [CHR 0x22]))])
   \<and> parse_items
        [(''input_voltage'', PStr ''1.3.6.1 = INTEGER: 228''),
         (''model'', PStr (''1.3.6.1 = STRING: '' @ [CHR 0x22] @ ''Smart-UPS 1500'' @ [CHR 0x22]))]
       = [(''input_voltage'', PInt 228), (''model'', PStr ''Smart-UPS 1500'')]
   \<and> (\<exists>a. analyze_power_quality ''2024-01-01T00:00:00''
             (PDict [(''snmp_data'', PDict
                [(''input_voltage'', PStr ''1.3.6.1 = INTEGER: 228''),
                 (''model'', PStr (''1.3.6.1 = STRING: '' @ [CHR 0x22] @ ''Smart-UPS 1500''
                                   @ [CHR 0x22]))])]) = Inr a
          \<and> error a = None
          \<and> parsed_snmp_data a =
              Some (parse_items
                [(''input_voltage'', PStr ''1.3.6.1 = INTEGER: 228''),
                 (''model'', PStr (''1.3.6.1 = STRING: '' @ [CHR 0x22] @ ''Smart-UPS 1500''
                                   @ [CHR 0x22]))]))"
proof -
  define items where "items =
      [(''input_voltage'', PStr ''1.3.6.1 = INTEGER: 228''),
       (''model'', PStr (''1.3.6.1 = STRING: '' @ [CHR 0x22] @ ''Smart-UPS 1500'' @ [CHR 0x22]))]"
  define md where "md = PDict [(''snmp_data'', PDict items)]"
  note inst = normalization_keeps_every_key [of items md "''2024-01-01T00:00:00''"]
  have d: "distinct (map fst items)" by (simp add: items_def)
  have g: "py_get md ''snmp_data'' (PDict []) = Inr (PDict items)"
    by (simp add: md_def py_get_def dict_get_def)
  obtain a where r: "analyze_power_quality ''2024-01-01T00:00:00'' md = Inr a" and ok: "error a = None"
    using analyze_normal by (simp add: md_def items_def)
  from inst d have "parse_items items = map (\<lambda>(k, v). (k, parse_snmp_value v)) items" by blast
  then have p: "parse_items items = [(''input_voltage'', PInt 228), (''model'', PStr ''Smart-UPS 1500'')]"
    using parse_228 parse_model by (simp add: items_def)
  from inst g r ok have "parsed_snmp_data a = Some (parse_items items)" by blast
  with d p r ok show ?thesis unfolding md_def items_def by blast
qed

subsection \<open>The evaluator's checks\<close>

lemma analyze_body_findings:
  assumes "analyze_body now md = Inr a"
    and "py_get md ''snmp_data'' (PDict []) = Inr (PDict items)"
  shows "\<exists>cap. (power_quality_issues a, alerts a) =
           check_frequency (metric items ''input_frequency'')
             (check_temperature (metric items ''battery_temperature'')
               (check_load (metric items ''output_load'') cap
                 (check_state (metric items ''ups_basic_state'')
                   (check_voltage (metric items ''input_voltage'') ([], [])))))"
  using assms
  by (auto simp: analyze_body_def py_items_def metric_def Let_def split: sum.splits)

lemma analyze_power_quality_ok:
  assumes "analyze_power_quality now md = Inr a" and "error a = None"
  shows "analyze_body now md = Inr a"
  using assms
  by (cases "analyze_body now md")
     (auto simp: analyze_power_quality_def try_except_def degraded_def)

lemma analyze_body_succeeds:
  assumes "py_get md ''snmp_data'' (PDict []) = Inr (PDict items)"
    and "case metric items ''ups_basic_state'' of None \<Rightarrow> True | Some s \<Rightarrow> is_finite s"
  shows "\<exists>a. analyze_power_quality now md = Inr a \<and> error a = None"
proof -
  from assms(1) obtain top where md: "md = PDict top"
    by (cases md) (simp_all add: py_get_def)
  from assms(2) obtain d where "decode_ups_state (opt_value (metric items ''ups_basic_state'')) = Inr d"
    by (cases "metric items ''ups_basic_state''")
       (auto simp: decode_ups_state_def opt_value_def get_numeric_value_def py_int_of_float_finite)
  with assms(1) md show ?thesis
    by (simp add: analyze_power_quality_def try_except_def analyze_body_def py_items_def
        metric_def Let_def py_get_def)
qed

lemma voltage_filter_voltage:
  "filter voltage_issue (fst (check_voltage x st)) =
     filter voltage_issue (fst st) @
     (case x of None \<Rightarrow> []
      | Some v \<Rightarrow> if float_truthy v \<and> float_lt v 200 then [''UNDERVOLTAGE: '' @ float_repr v @ ''V'']
                  else if float_truthy v \<and> float_gt v 250 then [''OVERVOLTAGE: '' @ float_repr v @ ''V'']
                  else [])"
  by (simp add: check_voltage_def emit_def voltage_issue_def split: option.splits)

lemma voltage_filter_voltage_alert:
  "filter voltage_alert (snd (check_voltage x st)) =
     filter voltage_alert (snd st) @
     (case x of None \<Rightarrow> []
      | Some v \<Rightarrow> if float_truthy v \<and> float_lt v 200 then [''LOW_VOLTAGE'']
                  else if float_truthy v \<and> float_gt v 250 then [''HIGH_VOLTAGE'']
                  else [])"
  by (simp add: check_voltage_def emit_def voltage_alert_def split: option.splits)

lemma voltage_filter_others:
  "filter voltage_issue (fst (check_state s st)) = filter voltage_issue (fst st)"
  "filter voltage_issue (fst (check_load l cap st)) = filter voltage_issue (fst st)"
  "filter voltage_issue (fst (check_temperature t st)) = filter voltage_issue (fst st)"
  "filter voltage_issue (fst (check_frequency f st)) = filter voltage_issue (fst st)"
  "filter voltage_alert (snd (check_state s st)) = filter voltage_alert (snd st)"
  "filter voltage_alert (snd (check_load l cap st)) = filter voltage_alert (snd st)"
  "filter voltage_alert (snd (check_temperature t st)) = filter voltage_alert (snd st)"
  "filter voltage_alert (snd (check_frequency f st)) = filter voltage_alert (snd st)"
  by (simp_all add: check_state_def check_load_def check_temperature_def check_frequency_def
      emit_def voltage_issue_def voltage_alert_def split: option.splits)

lemma state_filter_state:
  "filter state_issue (fst (check_state x st)) =
     filter state_issue (fst st) @
     (if opt_eq x 4 then [''VOLTAGE_COMPENSATION: Smart Boost (Low Voltage Compensation)'']
      else if opt_eq x 12 then [''VOLTAGE_COMPENSATION: Smart Trim (High Voltage Compensation)'']
      else if opt_eq x 3 then [''POWER_FAILURE: Running on Battery'']
      else [])"
  "filter state_alert (snd (check_state x st)) =
     filter state_alert (snd st) @
     (if opt_eq x 4 then [''COMPENSATION_ACTIVE'']
      else if opt_eq x 12 then [''COMPENSATION_ACTIVE'']
      else if opt_eq x 3 then [''ON_BATTERY'']
      else [])"
  by (simp_all add: check_state_def emit_def state_issue_def state_alert_def)

lemma state_filter_others:
  "filter state_issue (fst (check_voltage v st)) = filter state_issue (fst st)"
  "filter state_issue (fst (check_load l cap st)) = filter state_issue (fst st)"
  "filter state_issue (fst (check_temperature t st)) = filter state_issue (fst st)"
  "filter state_issue (fst (check_frequency f st)) = filter state_issue (fst st)"
  "filter state_alert (snd (check_voltage v st)) = filter state_alert (snd st)"
  "filter state_alert (snd (check_load l cap st)) = filter state_alert (snd st)"
  "filter state_alert (snd (check_temperature t st)) = filter state_alert (snd st)"
  "filter state_alert (snd (check_frequency f st)) = filter state_alert (snd st)"
  by (simp_all add: check_voltage_def check_load_def check_temperature_def check_frequency_def
      emit_def state_issue_def state_alert_def split: option.splits)

subsection \<open>Voltage rule\<close>

lemma voltage_findings:
  assumes "analyze_body now md = Inr a"
    and "py_get md ''snmp_data'' (PDict []) = Inr (PDict items)"
  shows "filter voltage_issue (power_quality_issues a) =
           (case metric items ''input_voltage'' of None \<Rightarrow> []
            | Some v \<Rightarrow> if float_truthy v \<and> float_lt v 200 then [''UNDERVOLTAGE: '' @ float_repr v @ ''V'']
                        else if float_truthy v \<and> float_gt v 250 then [''OVERVOLTAGE: '' @ float_repr v @ ''V'']
                        else [])"
    and "filter voltage_alert (alerts a) =
           (case metric items ''input_voltage'' of None \<Rightarrow> []
            | Some v \<Rightarrow> if float_truthy v \<and> float_lt v 200 then [''LOW_VOLTAGE'']
                        else if float_truthy v \<and> float_gt v 250 then [''HIGH_VOLTAGE'']
                        else [])"
proof -
  from analyze_body_findings [OF assms] obtain cap where
    eq: "(power_quality_issues a, alerts a) =
           check_frequency (metric items ''input_frequency'')
             (check_temperature (metric items ''battery_temperature'')
               (check_load (metric items ''output_load'') cap
                 (check_state (metric items ''ups_basic_state'')
                   (check_voltage (metric items ''input_voltage'') ([], [])))))"
    by blast
  have i: "power_quality_issues a = fst (power_quality_issues a, alerts a)" by simp
  have al: "alerts a = snd (power_quality_issues a, alerts a)" by simp
  show "filter voltage_issue (power_quality_issues a) =
           (case metric items ''input_voltage'' of None \<Rightarrow> []
            | Some v \<Rightarrow> if float_truthy v \<and> float_lt v 200 then [''UNDERVOLTAGE: '' @ float_repr v @ ''V'']
                        else if float_truthy v \<and> float_gt v 250 then [''OVERVOLTAGE: '' @ float_repr v @ ''V'']
                        else [])"
    by (subst i, subst eq) (simp add: voltage_filter_others voltage_filter_voltage)
  show "filter voltage_alert (alerts a) =
           (case metric items ''input_voltage'' of None \<Rightarrow> []
            | Some v \<Rightarrow> if float_truthy v \<and> float_lt v 200 then [''LOW_VOLTAGE'']
                        else if float_truthy v \<and> float_gt v 250 then [''HIGH_VOLTAGE'']
                        else [])"
    by (subst al, subst eq) (simp add: voltage_filter_others voltage_filter_voltage_alert)
qed

text \<open>
  C3, amended. Whenever the evaluation does not end in the \<open>except\<close> branch and the
  extracted input voltage is a number \<open>v\<close>: for nonzero \<open>v < 200\<close> the voltage issues of
  the result are exactly \<open>UNDERVOLTAGE: {v}V\<close>, with the alert \<open>LOW_VOLTAGE\<close>; for
  nonzero \<open>v > 250\<close> they are exactly \<open>OVERVOLTAGE: {v}V\<close>, with \<open>HIGH_VOLTAGE\<close>; when
  \<open>v\<close> is zero, or between 200 and 250, or a NaN, there is no voltage issue and no voltage
  alert. At most one voltage issue is produced.
\<close>

theorem voltage_rule:
  assumes "analyze_power_quality now md = Inr a" and "error a = None"
    and "py_get md ''snmp_data'' (PDict []) = Inr (PDict items)"
    and "metric items ''input_voltage'' = Some v"
  shows "(float_truthy v \<and> float_lt v 200 \<longrightarrow>
            filter voltage_issue (power_quality_issues a) = [''UNDERVOLTAGE: '' @ float_repr v @ ''V'']
            \<and> filter voltage_alert (alerts a) = [''LOW_VOLTAGE''])
       \<and> (float_truthy v \<and> \<not> float_lt v 200 \<and> float_gt v 250 \<longrightarrow>
            filter voltage_issue (power_quality_issues a) = [''OVERVOLTAGE: '' @ float_repr v @ ''V'']
            \<and> filter voltage_alert (alerts a) = [''HIGH_VOLTAGE''])
       \<and> (\<not> float_truthy v \<or> \<not> float_lt v 200 \<and> \<not> float_gt v 250 \<longrightarrow>
            filter voltage_issue (power_quality_issues a) = []
            \<and> filter voltage_alert (alerts a) = [])
       \<and> length (filter voltage_issue (power_quality_issues a)) \<le> 1"
proof -
  have body: "analyze_body now md = Inr a"
    using assms(1,2) by (rule analyze_power_quality_ok)
  show ?thesis
    unfolding voltage_findings [OF body assms(3)] assms(4) by simp
qed

lemma parse_example:
  "parse_snmp_value (PStr ''1.3.6.1.4.1.318.1.1.1.3.2.1.0 = INTEGER: 180'') = PInt 180"
  "parse_snmp_value (PStr ''1.3.6.1.4.1.318.1.1.1.11.1.1.0 = INTEGER: 3'') = PInt 3"
  "parse_snmp_value (PStr ''1.3.6.1.4.1.318.1.1.1.4.2.3.0 = INTEGER: 45'') = PInt 45"
  "parse_snmp_value (PStr ''1.3.6.1 = INTEGER: 0'') = PInt 0"
  by (simp_all add: parse_eval)

lemma analyze_example:
  "analyze_power_quality ''2024-01-01T00:00:00'' example_data
   = Inr \<lparr> power_quality_issues = [''UNDERVOLTAGE: 180.0V'', ''POWER_FAILURE: Running on Battery''],
            alerts = [''LOW_VOLTAGE'', ''ON_BATTERY''],
            parsed_snmp_data = Some [(''input_voltage'', PInt 180), (''ups_basic_state'', PInt 3),
                                     (''output_load'', PInt 45)],
            ups_state_description = Some ''On Battery'',
            analysis_timestamp = Some ''2024-01-01T00:00:00'',
            quality_score = Some 65,
            recommendations = Some [],
            error = None \<rparr>"
  by (simp add: analyze_power_quality_def try_except_def example_data_def body_eval
      parse_example float_repr_180)

lemma analyze_zero_voltage:
  "analyze_power_quality ''2024-01-01T00:00:00''
     (PDict [(''snmp_data'', PDict [(''input_voltage'', PStr ''1.3.6.1 = INTEGER: 0'')])])
   = Inr \<lparr> power_quality_issues = [],
            alerts = [],
            parsed_snmp_data = Some [(''input_voltage'', PInt 0)],
            ups_state_description = Some ''State Unknown'',
            analysis_timestamp = Some ''2024-01-01T00:00:00'',
            quality_score = Some 100,
            recommendations = Some [''UPS operating normally - continue regular monitoring''],
            error = None \<rparr>"
  by (simp add: analyze_power_quality_def try_except_def body_eval parse_example
      py_float_of_int_def)

lemma metric_zero_voltage:
  "metric [(''input_voltage'', PStr ''1.3.6.1 = INTEGER: 0'')] ''input_voltage'' = Some (Finite 0)"
  by (simp add: metric_def parse_items_def dict_get_def parse_example get_numeric_value_def
      py_float_of_int_def)

text \<open>
  C3 fails at zero: the guard \<open>if input_voltage:\<close> is false for \<open>0.0\<close>, so a reading of
  0, which is below 200, produces no issue and no alert.
\<close>

theorem voltage_zero_counterexample:
  "metric [(''input_voltage'', PStr ''1.3.6.1 = INTEGER: 0'')] ''input_voltage'' = Some (Finite 0)
   \<and> float_lt (Finite 0) 200
   \<and> analyze_power_quality ''2024-01-01T00:00:00''
        (PDict [(''snmp_data'', PDict [(''input_voltage'', PStr ''1.3.6.1 = INTEGER: 0'')])])
      = Inr \<lparr> power_quality_issues = [],
               alerts = [],
               parsed_snmp_data = Some [(''input_voltage'', PInt 0)],
               ups_state_description = Some ''State Unknown'',
               analysis_timestamp = Some ''2024-01-01T00:00:00'',
               quality_score = Some 100,
               recommendations = Some [''UPS operating normally - continue regular monitoring''],
               error = None \<rparr>"
  by (simp add: metric_zero_voltage analyze_zero_voltage float_lt_def)

theorem voltage_rule_witness:
  "(\<exists>a. analyze_power_quality ''2024-01-01T00:00:00'' example_data = Inr a \<and> error a = None
        \<and> float_truthy (Finite 180) \<and> float_lt (Finite 180) 200
        \<and> filter voltage_issue (power_quality_issues a) = [''UNDERVOLTAGE: 180.0V'']
        \<and> filter voltage_alert (alerts a) = [''LOW_VOLTAGE''])
   \<and> (\<exists>a. analyze_power_quality ''2024-01-01T00:00:00''
              (PDict [(''snmp_data'', PDict [(''input_voltage'', PInt 260)])]) = Inr a
        \<and> error a = None
        \<and> float_truthy (Finite 260) \<and> \<not> float_lt (Finite 260) 200 \<and> float_gt (Finite 260) 250
        \<and> filter voltage_issue (power_quality_issues a) = [''OVERVOLTAGE: '' @ float_repr (Finite 260) @ ''V'']
        \<and> filter voltage_alert (alerts a) = [''HIGH_VOLTAGE''])
   \<and> (\<exists>a. analyze_power_quality ''2024-01-01T00:00:00''
              (PDict [(''snmp_data'', PDict [(''input_voltage'', PStr ''1.3.6.1 = INTEGER: 0'')])]) = Inr a
        \<and> error a = None
        \<and> \<not> float_truthy (Finite 0)
        \<and> filter voltage_issue (power_quality_issues a) = []
        \<and> filter voltage_alert (alerts a) = [])"
proof -
  define items1 where "items1 =
     [(''input_voltage'', PStr ''1.3.6.1.4.1.318.1.1.1.3.2.1.0 = INTEGER: 180''),
      (''ups_basic_state'', PStr ''1.3.6.1.4.1.318.1.1.1.11.1.1.0 = INTEGER: 3''),
      (''output_load'', PStr ''1.3.6.1.4.1.318.1.1.1.4.2.3.0 = INTEGER: 45'')]"
  have g1: "py_get example_data ''snmp_data'' (PDict []) = Inr (PDict items1)"
    by (simp add: example_data_def items1_def py_get_def dict_get_def)
  have m1: "metric items1 ''input_voltage'' = Some (Finite 180)"
    by (simp add: metric_def items1_def parse_items_def dict_get_def parse_example
        get_numeric_value_def py_float_of_int_numeral)
  obtain a1 where r1: "analyze_power_quality ''2024-01-01T00:00:00'' example_data = Inr a1"
    and ok1: "error a1 = None"
    using analyze_example by simp
  have t1: "float_truthy (Finite 180) \<and> float_lt (Finite 180) 200"
    by (simp add: float_truthy_def float_lt_def)
  from voltage_rule [OF r1 ok1 g1 m1] t1
  have c1: "filter voltage_issue (power_quality_issues a1) = [''UNDERVOLTAGE: 180.0V'']
            \<and> filter voltage_alert (alerts a1) = [''LOW_VOLTAGE'']"
    by (simp add: float_repr_180)
  define md2 where "md2 = PDict [(''snmp_data'', PDict [(''input_voltage'', PInt 260)])]"
  have g2: "py_get md2 ''snmp_data'' (PDict []) = Inr (PDict [(''input_voltage'', PInt 260)])"
    by (simp add: md2_def py_get_def dict_get_def)
  have m2: "metric [(''input_voltage'', PInt 260)] ''input_voltage'' = Some (Finite 260)"
    by (simp add: metric_def parse_items_def dict_get_def parse_snmp_value_def
        get_numeric_value_def py_float_of_int_numeral)
  have s2: "case metric [(''input_voltage'', PInt 260)] ''ups_basic_state'' of
              None \<Rightarrow> True | Some s \<Rightarrow> is_finite s"
    by (simp add: metric_def parse_items_def dict_get_def parse_snmp_value_def
        get_numeric_value_def)
  from analyze_body_succeeds [OF g2 s2, of "''2024-01-01T00:00:00''"]
  obtain a2 where r2: "analyze_power_quality ''2024-01-01T00:00:00'' md2 = Inr a2"
    and ok2: "error a2 = None" by blast
  have t2: "float_truthy (Finite 260) \<and> \<not> float_lt (Finite 260) 200 \<and> float_gt (Finite 260) 250"
    by (simp add: float_truthy_def float_lt_def float_gt_def)
  from voltage_rule [OF r2 ok2 g2 m2] t2
  have c2: "filter voltage_issue (power_quality_issues a2) = [''OVERVOLTAGE: '' @ float_repr (Finite 260) @ ''V'']
            \<and> filter voltage_alert (alerts a2) = [''HIGH_VOLTAGE'']"
    by simp
  define md3 where "md3 = PDict [(''snmp_data'', PDict [(''input_voltage'', PStr ''1.3.6.1 = INTEGER: 0'')])]"
  have g3: "py_get md3 ''snmp_data'' (PDict []) = Inr (PDict [(''input_voltage'', PStr ''1.3.6.1 = INTEGER: 0'')])"
    by (simp add: md3_def py_get_def dict_get_def)
  obtain a3 where r3: "analyze_power_quality ''2024-01-01T00:00:00'' md3 = Inr a3"
    and ok3: "error a3 = None"
    using analyze_zero_voltage by (simp add: md3_def)
  have t3: "\<not> float_truthy (Finite 0)" by (simp add: float_truthy_def)
  from voltage_rule [OF r3 ok3 g3 metric_zero_voltage] t3
  have c3: "filter voltage_issue (power_quality_issues a3) = []
            \<and> filter voltage_alert (alerts a3) = []"
    by simp
  from r1 ok1 t1 c1 r2 ok2 t2 c2 r3 ok3 t3 c3 show ?thesis
    unfolding md2_def md3_def by blast
qed

subsection \<open>State rule\<close>

lemma state_findings:
  assumes "analyze_body now md = Inr a"
    and "py_get md ''snmp_data'' (PDict []) = Inr (PDict items)"
  shows "filter state_issue (power_quality_issues a) =
           (if opt_eq (metric items ''ups_basic_state'') 4
            then [''VOLTAGE_COMPENSATION: Smart Boost (Low Voltage Compensation)'']
            else if opt_eq (metric items ''ups_basic_state'') 12
            then [''VOLTAGE_COMPENSATION: Smart Trim (High Voltage Compensation)'']
            else if opt_eq (metric items ''ups_basic_state'') 3
            then [''POWER_FAILURE: Running on Battery'']
            else [])"
    and "filter state_alert (alerts a) =
           (if opt_eq (metric items ''ups_basic_state'') 4 then [''COMPENSATION_ACTIVE'']
            else if opt_eq (metric items ''ups_basic_state'') 12 then [''COMPENSATION_ACTIVE'']
            else if opt_eq (metric items ''ups_basic_state'') 3 then [''ON_BATTERY'']
            else [])"
proof -
  from analyze_body_findings [OF assms] obtain cap where
    eq: "(power_quality_issues a, alerts a) =
           check_frequency (metric items ''input_frequency'')
             (check_temperature (metric items ''battery_temperature'')
               (check_load (metric items ''output_load'') cap
                 (check_state (metric items ''ups_basic_state'')
                   (check_voltage (metric items ''input_voltage'') ([], [])))))"
    by blast
  have i: "power_quality_issues a = fst (power_quality_issues a, alerts a)" by simp
  have al: "alerts a = snd (power_quality_issues a, alerts a)" by simp
  show "filter state_issue (power_quality_issues a) =
           (if opt_eq (metric items ''ups_basic_state'') 4
            then [''VOLTAGE_COMPENSATION: Smart Boost (Low Voltage Compensation)'']
            else if opt_eq (metric items ''ups_basic_state'') 12
            then [''VOLTAGE_COMPENSATION: Smart Trim (High Voltage Compensation)'']
            else if opt_eq (metric items ''ups_basic_state'') 3
            then [''POWER_FAILURE: Running on Battery'']
            else [])"
    by (subst i, subst eq) (simp add: state_filter_others state_filter_state)
  show "filter state_alert (alerts a) =
           (if opt_eq (metric items ''ups_basic_state'') 4 then [''COMPENSATION_ACTIVE'']
            else if opt_eq (metric items ''ups_basic_state'') 12 then [''COMPENSATION_ACTIVE'']
            else if opt_eq (metric items ''ups_basic_state'') 3 then [''ON_BATTERY'']
            else [])"
    by (subst al, subst eq) (simp add: state_filter_others state_filter_state)
qed

lemma float_eq_unique: "float_eq s m \<Longrightarrow> float_eq s n \<Longrightarrow> m = n"
  by (cases s) (simp_all add: float_eq_def)

text \<open>
  C4, amended. Whenever the evaluation does not end in the \<open>except\<close> branch and the
  extracted state is a number \<open>s\<close>, the evaluator compares \<open>s\<close> itself, not truncated,
  with 4, 12 and 3: \<open>s == 4\<close> gives exactly the issue \<open>VOLTAGE_COMPENSATION: Smart Boost
  (Low Voltage Compensation)\<close> with the alert \<open>COMPENSATION_ACTIVE\<close>, \<open>s == 12\<close> the
  Smart Trim issue with \<open>COMPENSATION_ACTIVE\<close>, \<open>s == 3\<close> the issue \<open>POWER_FAILURE:
  Running on Battery\<close> with \<open>ON_BATTERY\<close>; any other value, such as 4.5, gives no state
  issue and no state alert. At most one branch fires.
\<close>

theorem state_rule:
  assumes "analyze_power_quality now md = Inr a" and "error a = None"
    and "py_get md ''snmp_data'' (PDict []) = Inr (PDict items)"
    and "metric items ''ups_basic_state'' = Some s"
  shows "(float_eq s 4 \<longrightarrow>
            filter state_issue (power_quality_issues a) =
              [''VOLTAGE_COMPENSATION: Smart Boost (Low Voltage Compensation)'']
            \<and> filter state_alert (alerts a) = [''COMPENSATION_ACTIVE''])
       \<and> (float_eq s 12 \<longrightarrow>
            filter state_issue (power_quality_issues a) =
              [''VOLTAGE_COMPENSATION: Smart Trim (High Voltage Compensation)'']
            \<and> filter state_alert (alerts a) = [''COMPENSATION_ACTIVE''])
       \<and> (float_eq s 3 \<longrightarrow>
            filter state_issue (power_quality_issues a) = [''POWER_FAILURE: Running on Battery'']
            \<and> filter state_alert (alerts a) = [''ON_BATTERY''])
       \<and> (\<not> float_eq s 4 \<and> \<not> float_eq s 12 \<and> \<not> float_eq s 3 \<longrightarrow>
            filter state_issue (power_quality_issues a) = []
            \<and> filter state_alert (alerts a) = [])
       \<and> length (filter state_issue (power_quality_issues a)) \<le> 1"
proof -
  have body: "analyze_body now md = Inr a"
    using assms(1,2) by (rule analyze_power_quality_ok)
  have x1: "float_eq s 12 \<Longrightarrow> \<not> float_eq s 4" using float_eq_unique [of s 12 4] by auto
  have x2: "float_eq s 3 \<Longrightarrow> \<not> float_eq s 4" using float_eq_unique [of s 3 4] by auto
  have x3: "float_eq s 3 \<Longrightarrow> \<not> float_eq s 12" using float_eq_unique [of s 3 12] by auto
  show ?thesis
    unfolding state_findings [OF body assms(3)] assms(4) opt_eq_def
    using x1 x2 x3 by auto
qed

lemma analyze_state_4_5:
  "analyze_power_quality ''2024-01-01T00:00:00''
     (PDict [(''snmp_data'', PDict [(''ups_basic_state'', PFloat (Finite (9 / 2)))])])
   = Inr \<lparr> power_quality_issues = [],
            alerts = [],
            parsed_snmp_data = Some [(''ups_basic_state'', PFloat (Finite (9 / 2)))],
            ups_state_description = Some ''Smart Boost (Low Voltage Compensation)'',
            analysis_timestamp = Some ''2024-01-01T00:00:00'',
            quality_score = Some 100,
            recommendations = Some [''UPS operating normally - continue regular monitoring''],
            error = None \<rparr>"
  by (simp add: analyze_power_quality_def try_except_def body_eval parse_snmp_value_def
      floor_rat_numeral_div)

lemma metric_state_4_5:
  "metric [(''ups_basic_state'', PFloat (Finite (9 / 2)))] ''ups_basic_state'' = Some (Finite (9 / 2))"
  by (simp add: metric_def parse_items_def dict_get_def parse_snmp_value_def
      get_numeric_value_def float_truthy_def)

text \<open>
  C4 fails at 4.5: the comparison \<open>ups_state == 4\<close> is made on the float that
  \<open>get_numeric_value\<close> returned, so 4.5 fires no branch, although \<open>decode_ups_state\<close>
  truncates the same value to 4 for the description.
\<close>

theorem state_4_5_counterexample:
  "metric [(''ups_basic_state'', PFloat (Finite (9 / 2)))] ''ups_basic_state'' = Some (Finite (9 / 2))
   \<and> py_int_of_float (Finite (9 / 2)) = Inr 4
   \<and> analyze_power_quality ''2024-01-01T00:00:00''
        (PDict [(''snmp_data'', PDict [(''ups_basic_state'', PFloat (Finite (9 / 2)))])])
      = Inr \<lparr> power_quality_issues = [],
               alerts = [],
               parsed_snmp_data = Some [(''ups_basic_state'', PFloat (Finite (9 / 2)))],
               ups_state_description = Some ''Smart Boost (Low Voltage Compensation)'',
               analysis_timestamp = Some ''2024-01-01T00:00:00'',
               quality_score = Some 100,
               recommendations = Some [''UPS operating normally - continue regular monitoring''],
               error = None \<rparr>"
  by (simp add: metric_state_4_5 analyze_state_4_5 py_int_of_float_def floor_rat_numeral_div)

lemma state_instance:
  assumes "(numeral k :: int) < 2 ^ 53"
  shows "py_get (PDict [(''snmp_data'', PDict [(''ups_basic_state'', PInt (numeral k))])])
           ''snmp_data'' (PDict []) = Inr (PDict [(''ups_basic_state'', PInt (numeral k))])"
    and "metric [(''ups_basic_state'', PInt (numeral k))] ''ups_basic_state'' = Some (Finite (numeral k))"
    and "\<exists>a. analyze_power_quality now
               (PDict [(''snmp_data'', PDict [(''ups_basic_state'', PInt (numeral k))])]) = Inr a
             \<and> error a = None"
proof -
  show g: "py_get (PDict [(''snmp_data'', PDict [(''ups_basic_state'', PInt (numeral k))])])
           ''snmp_data'' (PDict []) = Inr (PDict [(''ups_basic_state'', PInt (numeral k))])"
    by (simp add: py_get_def dict_get_def)
  show m: "metric [(''ups_basic_state'', PInt (numeral k))] ''ups_basic_state'' = Some (Finite (numeral k))"
    using assms
    by (simp add: metric_def parse_items_def dict_get_def parse_snmp_value_def
        get_numeric_value_def py_float_of_int_numeral)
  have "case metric [(''ups_basic_state'', PInt (numeral k))] ''ups_basic_state'' of
          None \<Rightarrow> True | Some s \<Rightarrow> is_finite s"
    by (simp add: m)
  from analyze_body_succeeds [OF g this]
  show "\<exists>a. analyze_power_quality now
               (PDict [(''snmp_data'', PDict [(''ups_basic_state'', PInt (numeral k))])]) = Inr a
             \<and> error a = None" .
qed

theorem state_rule_witness:
  "(\<exists>a. analyze_power_quality ''2024-01-01T00:00:00''
            (PDict [(''snmp_data'', PDict [(''ups_basic_state'', PInt 4)])]) = Inr a
        \<and> error a = None \<and> float_eq (Finite 4) 4
        \<and> filter state_issue (power_quality_issues a) =
            [''VOLTAGE_COMPENSATION: Smart Boost (Low Voltage Compensation)'']
        \<and> filter state_alert (alerts a) = [''COMPENSATION_ACTIVE''])
   \<and> (\<exists>a. analyze_power_quality ''2024-01-01T00:00:00''
            (PDict [(''snmp_data'', PDict [(''ups_basic_state'', PInt 12)])]) = Inr a
        \<and> error a = None \<and> float_eq (Finite 12) 12
        \<and> filter state_issue (power_quality_issues a) =
            [''VOLTAGE_COMPENSATION: Smart Trim (High Voltage Compensation)'']
        \<and> filter state_alert (alerts a) = [''COMPENSATION_ACTIVE''])
   \<and> (\<exists>a. analyze_power_quality ''2024-01-01T00:00:00''
            (PDict [(''snmp_data'', PDict [(''ups_basic_state'', PInt 3)])]) = Inr a
        \<and> error a = None \<and> float_eq (Finite 3) 3
        \<and> filter state_issue (power_quality_issues a) = [''POWER_FAILURE: Running on Battery'']
        \<and> filter state_alert (alerts a) = [''ON_BATTERY''])
   \<and> (\<exists>a. analyze_power_quality ''2024-01-01T00:00:00''
            (PDict [(''snmp_data'', PDict [(''ups_basic_state'', PFloat (Finite (9 / 2)))])]) = Inr a
        \<and> error a = None
        \<and> \<not> float_eq (Finite (9 / 2)) 4 \<and> \<not> float_eq (Finite (9 / 2)) 12
        \<and> \<not> float_eq (Finite (9 / 2)) 3
        \<and> filter state_issue (power_quality_issues a) = []
        \<and> filter state_alert (alerts a) = [])"
proof -
  have k4: "(numeral (num.Bit0 (num.Bit0 num.One)) :: int) < 2 ^ 53" by simp
  have k12: "(numeral (num.Bit0 (num.Bit0 (num.Bit1 num.One))) :: int) < 2 ^ 53" by simp
  have k3: "(numeral (num.Bit1 num.One) :: int) < 2 ^ 53" by simp
  note i4 = state_instance [OF k4]
  note i12 = state_instance [OF k12]
  note i3 = state_instance [OF k3]
  from i4(3) [of "''2024-01-01T00:00:00''"] obtain a4 where r4: "analyze_power_quality ''2024-01-01T00:00:00''
            (PDict [(''snmp_data'', PDict [(''ups_basic_state'', PInt 4)])]) = Inr a4"
    and ok4: "error a4 = None" by blast
  have e4: "float_eq (Finite 4) 4" by (simp add: float_eq_def)
  from state_rule [OF r4 ok4 i4(1) i4(2)] e4
  have c4: "filter state_issue (power_quality_issues a4) =
            [''VOLTAGE_COMPENSATION: Smart Boost (Low Voltage Compensation)'']
        \<and> filter state_alert (alerts a4) = [''COMPENSATION_ACTIVE'']" by blast
  from i12(3) [of "''2024-01-01T00:00:00''"] obtain a12 where r12: "analyze_power_quality ''2024-01-01T00:00:00''
            (PDict [(''snmp_data'', PDict [(''ups_basic_state'', PInt 12)])]) = Inr a12"
    and ok12: "error a12 = None" by blast
  have e12: "float_eq (Finite 12) 12" by (simp add: float_eq_def)
  from state_rule [OF r12 ok12 i12(1) i12(2)] e12
  have c12: "filter state_issue (power_quality_issues a12) =
            [''VOLTAGE_COMPENSATION: Smart Trim (High Voltage Compensation)'']
        \<and> filter state_alert (alerts a12) = [''COMPENSATION_ACTIVE'']" by blast
  from i3(3) [of "''2024-01-01T00:00:00''"] obtain a3 where r3: "analyze_power_quality ''2024-01-01T00:00:00''
            (PDict [(''snmp_data'', PDict [(''ups_basic_state'', PInt 3)])]) = Inr a3"
    and ok3: "error a3 = None" by blast
  have e3: "float_eq (Finite 3) 3" by (simp add: float_eq_def)
  from state_rule [OF r3 ok3 i3(1) i3(2)] e3
  have c3: "filter state_issue (power_quality_issues a3) = [''POWER_FAILURE: Running on Battery'']
        \<and> filter state_alert (alerts a3) = [''ON_BATTERY'']" by blast
  obtain a0 where r0: "analyze_power_quality ''2024-01-01T00:00:00''
            (PDict [(''snmp_data'', PDict [(''ups_basic_state'', PFloat (Finite (9 / 2)))])]) = Inr a0"
    and ok0: "error a0 = None"
    using analyze_state_4_5 by simp
  have g0: "py_get (PDict [(''snmp_data'', PDict [(''ups_basic_state'', PFloat (Finite (9 / 2)))])])
              ''snmp_data'' (PDict []) = Inr (PDict [(''ups_basic_state'', PFloat (Finite (9 / 2)))])"
    by (simp add: py_get_def dict_get_def)
  have e0: "\<not> float_eq (Finite (9 / 2)) 4 \<and> \<not> float_eq (Finite (9 / 2)) 12
        \<and> \<not> float_eq (Finite (9 / 2)) 3" by (simp add: float_eq_def)
  from state_rule [OF r0 ok0 g0 metric_state_4_5] e0
  have c0: "filter state_issue (power_quality_issues a0) = []
        \<and> filter state_alert (alerts a0) = []" by blast
  from r4 ok4 e4 c4 r12 ok12 e12 c12 r3 ok3 e3 c3 r0 ok0 e0 c0 show ?thesis by blast
qed

subsection \<open>Temperature text\<close>

text \<open>
  C6: the evaluator at a battery temperature of 40. The issue text ends in the three code
  points U+00C2, U+00B0, \<open>C\<close> of the source literal, not in the degree sign and \<open>C\<close>
  alone; the alert, the threshold and the score are as the claim and the scorer say.
\<close>

theorem temperature_issue_text:
  "analyze_power_quality ''2024-01-01T00:00:00''
     (PDict [(''snmp_data'', PDict [(''battery_temperature'', PStr ''1.3.6.1 = INTEGER: 40'')])])
   = Inr \<lparr> power_quality_issues = [''HIGH_TEMPERATURE: 40.0'' @ [CHR 0xC2, CHR 0xB0] @ ''C''],
            alerts = [''HIGH_TEMP''],
            parsed_snmp_data = Some [(''battery_temperature'', PInt 40)],
            ups_state_description = Some ''State Unknown'',
            analysis_timestamp = Some ''2024-01-01T00:00:00'',
            quality_score = Some 85,
            recommendations = Some [''Check UPS ventilation and ambient temperature'',
                                    ''Verify UPS internal fans are operational''],
            error = None \<rparr>
   \<and> ''HIGH_TEMPERATURE: 40.0'' @ [CHR 0xC2, CHR 0xB0] @ ''C''
       \<noteq> ''HIGH_TEMPERATURE: 40.0'' @ [CHR 0xB0] @ ''C''"
proof -
  have p: "parse_snmp_value (PStr ''1.3.6.1 = INTEGER: 40'') = PInt 40"
    by (simp add: parse_eval)
  show ?thesis
    by (simp add: analyze_power_quality_def try_except_def body_eval p float_repr_40
        temperature_suffix_def)
qed

subsection \<open>The normalizer\<close>

lemma split_once_parts:
  "sep \<in> set s \<Longrightarrow> length (split_once sep s) = 2 \<and> split_once sep s ! 1 = tl (dropWhile (\<lambda>c. c \<noteq> sep) s)"
  by (simp add: split_once_def)

lemma strip_tags_fold:
  "foldl (\<lambda>v pattern. re_sub_prefix pattern v) s type_patterns = strip_tags_in_order s"
  by (simp add: type_patterns_def strip_tags_in_order_def)

text \<open>
  C7 fails on the quotes and on the tags: \<open>strip\<close> with the two quote characters removes
  every leading and trailing quote, not one layer, and the six substitutions run one after
  the other, so two tags in the order of the list are both removed.
\<close>

theorem normalize_counterexample:
  "parse_snmp_value (PStr (''x = '' @ [CHR 0x22, CHR 0x22] @ ''a'' @ [CHR 0x22, CHR 0x22])) = PStr ''a''
   \<and> normalize_claimed (''x = '' @ [CHR 0x22, CHR 0x22] @ ''a'' @ [CHR 0x22, CHR 0x22])
       = PStr ([CHR 0x22] @ ''a'' @ [CHR 0x22])
   \<and> parse_snmp_value (PStr ''x = INTEGER: STRING: 5'') = PInt 5
   \<and> normalize_claimed ''x = INTEGER: STRING: 5'' = PStr ''STRING: 5''"
  by (simp add: parse_eval normalize_claimed_def after_equals_def strip_one_tag_def
      strip_one_quote_layer_def number_or_text_def)

text \<open>
  C7, amended. For text with an \<open>=\<close>, \<open>parse_snmp_value\<close> takes what follows the first
  \<open>=\<close>, strips white space, removes in the order INTEGER:, STRING:, Gauge32:, Counter32:,
  Opaque:, OID: each tag the text then starts with (with the white space after it), strips
  every leading and trailing quote character, and converts: with a \<open>.\<close> in the text by
  \<open>float()\<close>, otherwise by \<open>int()\<close>, keeping the cleaned text when the conversion
  fails. So \<open>1.3.6.1 = INTEGER: 228\<close> gives the integer 228 and
  \<open>1.3.6.1 = STRING: "Smart-UPS 1500"\<close> gives the text \<open>Smart-UPS 1500\<close>.
\<close>

theorem normalize_spec:
  "(CHR ''='' \<in> set s \<longrightarrow>
      parse_snmp_value (PStr s) =
        number_or_text (strip_chars is_quote (strip_tags_in_order (py_strip (after_equals s)))))
   \<and> parse_snmp_value (PStr ''1.3.6.1 = INTEGER: 228'') = PInt 228
   \<and> parse_snmp_value (PStr (''1.3.6.1 = STRING: '' @ [CHR 0x22] @ ''Smart-UPS 1500'' @ [CHR 0x22]))
       = PStr ''Smart-UPS 1500''"
proof -
  have "parse_snmp_value (PStr s) =
        number_or_text (strip_chars is_quote (strip_tags_in_order (py_strip (after_equals s))))"
    if eq: "CHR ''='' \<in> set s"
  proof -
    from eq have ne: "s \<noteq> []" by auto
    from split_once_parts [OF eq]
    have "parse_assignment s =
            Some (number_or_text (strip_chars is_quote (strip_tags_in_order (py_strip (after_equals s)))))"
      by (simp add: parse_assignment_def Let_def strip_tags_fold number_or_text_def after_equals_def)
    with eq ne show ?thesis by (simp add: parse_snmp_value_def py_str_def)
  qed
  with parse_228 parse_model show ?thesis by blast
qed

lemma bit_length_eval:
  "bit_length 0 = 0"
  "bit_length (Suc 0) = 1"
  "bit_length (numeral k) = Suc (bit_length (numeral k div 2))"
  by (subst bit_length.simps, simp add: bit_length.simps)+

lemma round_12_5: "round_binary64 (25 / 2) = Some (25 / 2)"
  by (simp add: round_binary64_def floor_log2_def floor_rat_numeral_div bit_length_eval
      pow2_def round_half_even_def Let_def)

lemma float_12_5: "py_float_of_str ''12.5'' = Some (Finite (25 / 2))"
  by (simp add: py_float_of_str_def parse_float_def parse_exponent_def float_of_rat_def
      round_12_5 to_lower_def pow10_def text_eval Let_def)

lemma parse_12_5:
  "parse_snmp_value (PStr ''upsBasicOutputStatus = Gauge32: 12.5'') = PFloat (Finite (25 / 2))"
  by (simp add: parse_eval float_12_5)

theorem normalize_spec_witness:
  "CHR ''='' \<in> set ''upsBasicOutputStatus = Gauge32: 12.5''
   \<and> parse_snmp_value (PStr ''upsBasicOutputStatus = Gauge32: 12.5'')
       = number_or_text (strip_chars is_quote (strip_tags_in_order
           (py_strip (after_equals ''upsBasicOutputStatus = Gauge32: 12.5''))))
   \<and> strip_chars is_quote (strip_tags_in_order
           (py_strip (after_equals ''upsBasicOutputStatus = Gauge32: 12.5''))) = ''12.5''
   \<and> parse_snmp_value (PStr ''upsBasicOutputStatus = Gauge32: 12.5'') = PFloat (Finite (25 / 2))"
proof -
  have h: "CHR ''='' \<in> set ''upsBasicOutputStatus = Gauge32: 12.5''" by simp
  from normalize_spec [of "''upsBasicOutputStatus = Gauge32: 12.5''"] h
  have c: "parse_snmp_value (PStr ''upsBasicOutputStatus = Gauge32: 12.5'')
       = number_or_text (strip_chars is_quote (strip_tags_in_order
           (py_strip (after_equals ''upsBasicOutputStatus = Gauge32: 12.5''))))" by blast
  have v: "strip_chars is_quote (strip_tags_in_order
           (py_strip (after_equals ''upsBasicOutputStatus = Gauge32: 12.5''))) = ''12.5''"
    by (simp add: after_equals_def strip_tags_in_order_def text_eval)
  from h c v parse_12_5 show ?thesis by blast
qed

subsection \<open>Idempotence\<close>

lemma parse_snmp_value_shape:
  "parse_snmp_value x = x \<and> (\<not> truthy x \<or> is_number x)
   \<or> (\<exists>i. parse_snmp_value x = PInt i)
   \<or> (\<exists>f. parse_snmp_value x = PFloat f)
   \<or> (\<exists>s. parse_snmp_value x = PStr s)"
  by (auto simp: parse_snmp_value_def parse_assignment_def Let_def split: option.splits if_splits)

text \<open>
  C8 fails on a produced text that has an \<open>=\<close> of its own, and on one that quotes had
  shielded white space in: the second application parses the first and strips the second.
\<close>

theorem normalize_idempotence_counterexample:
  "parse_snmp_value (PStr ''a = b = INTEGER: 5'') = PStr ''b = INTEGER: 5''
   \<and> parse_snmp_value (parse_snmp_value (PStr ''a = b = INTEGER: 5'')) = PInt 5
   \<and> parse_snmp_value (PStr (''a = '' @ [CHR 0x22] @ '' hi '' @ [CHR 0x22])) = PStr '' hi ''
   \<and> parse_snmp_value (parse_snmp_value (PStr (''a = '' @ [CHR 0x22] @ '' hi '' @ [CHR 0x22]))) = PStr ''hi''"
proof -
  have a: "parse_snmp_value (PStr ''a = b = INTEGER: 5'') = PStr ''b = INTEGER: 5''"
    by (simp add: parse_eval)
  have b: "parse_snmp_value (PStr ''b = INTEGER: 5'') = PInt 5"
    by (simp add: parse_eval)
  have c: "parse_snmp_value (PStr (''a = '' @ [CHR 0x22] @ '' hi '' @ [CHR 0x22])) = PStr '' hi ''"
    by (simp add: parse_eval)
  have d: "parse_snmp_value (PStr '' hi '') = PStr ''hi''"
    by (simp add: parse_eval)
  show ?thesis unfolding a b c d by simp
qed

text \<open>
  C8, amended. \<open>parse_snmp_value\<close> applied to its own result returns that result
  whenever the result is not a text, or is a text without \<open>=\<close> and without white space at
  its ends: numbers, \<open>None\<close> and empty values pass through, and such a text is its own
  stripped form.
\<close>

theorem normalize_idempotent:
  assumes "\<And>t. parse_snmp_value x = PStr t \<Longrightarrow> CHR ''='' \<notin> set t \<and> py_strip t = t"
  shows "parse_snmp_value (parse_snmp_value x) = parse_snmp_value x"
proof -
  consider (same) "parse_snmp_value x = x" "\<not> truthy x \<or> is_number x"
    | (int) i where "parse_snmp_value x = PInt i"
    | (float) f where "parse_snmp_value x = PFloat f"
    | (str) t where "parse_snmp_value x = PStr t"
    using parse_snmp_value_shape [of x] by blast
  then show ?thesis
  proof cases
    case same
    then show ?thesis by simp
  next
    case int
    then show ?thesis by (simp add: parse_snmp_value_def)
  next
    case float
    then show ?thesis by (simp add: parse_snmp_value_def)
  next
    case str
    with assms have "CHR ''='' \<notin> set t" "py_strip t = t" by auto
    with str show ?thesis by (simp add: parse_snmp_value_def py_str_def)
  qed
qed

theorem normalize_idempotent_witness:
  "parse_snmp_value (PStr (''1.3.6.1 = STRING: '' @ [CHR 0x22] @ ''Smart-UPS 1500'' @ [CHR 0x22]))
     = PStr ''Smart-UPS 1500''
   \<and> CHR ''='' \<notin> set ''Smart-UPS 1500'' \<and> py_strip ''Smart-UPS 1500'' = ''Smart-UPS 1500''
   \<and> parse_snmp_value (parse_snmp_value
        (PStr (''1.3.6.1 = STRING: '' @ [CHR 0x22] @ ''Smart-UPS 1500'' @ [CHR 0x22])))
     = parse_snmp_value (PStr (''1.3.6.1 = STRING: '' @ [CHR 0x22] @ ''Smart-UPS 1500'' @ [CHR 0x22]))"
proof -
  have c: "CHR ''='' \<notin> set ''Smart-UPS 1500'' \<and> py_strip ''Smart-UPS 1500'' = ''Smart-UPS 1500''"
    by (simp add: text_eval)
  have h: "\<And>t. parse_snmp_value
        (PStr (''1.3.6.1 = STRING: '' @ [CHR 0x22] @ ''Smart-UPS 1500'' @ [CHR 0x22])) = PStr t
        \<Longrightarrow> CHR ''='' \<notin> set t \<and> py_strip t = t"
    unfolding parse_model using c by simp
  from normalize_idempotent [OF h] have
    "parse_snmp_value (parse_snmp_value
        (PStr (''1.3.6.1 = STRING: '' @ [CHR 0x22] @ ''Smart-UPS 1500'' @ [CHR 0x22])))
     = parse_snmp_value (PStr (''1.3.6.1 = STRING: '' @ [CHR 0x22] @ ''Smart-UPS 1500'' @ [CHR 0x22]))" .
  with parse_model c show ?thesis by blast
qed

end
